theory Spec2Isabelle
  imports Complex_Main
begin

section \<open>Spot detection and intensity measurement (starfish, DetectSpots/detect.py)\<close>

text \<open>
  A shallow embedding of \<^verbatim>\<open>src/starfish/core/spots/DetectSpots/detect.py\<close>.
  Python exceptions are values of \<open>py_error\<close>; a function that may raise returns
  \<open>py_error + 'a\<close> with \<open>Inl\<close> the exception. Mutation of the caller's table is
  explicit: the updated table is returned.
\<close>

subsection \<open>Errors\<close>

datatype py_error = KeyError | IndexError | ValueError

subsection \<open>Arrays and Python slicing\<close>

text \<open>
  An n-dimensional array (\<^verbatim>\<open>np.ndarray\<close> or \<^verbatim>\<open>xr.DataArray\<close>, which index alike by
  position): its \<open>shape\<close>, one length per axis, and the cell at each index vector.
  Only index vectors inside the shape are meaningful.
\<close>

record 'a ndarray =
  shape :: "nat list"
  item :: "nat list \<Rightarrow> 'a"

text \<open>
  A slice bound \<open>k\<close> on an axis of length \<open>n\<close>, as Python normalises it for step 1:
  a negative bound counts from the end, and the result is clamped to \<open>0..n\<close>.
\<close>

definition slice_bound :: "int \<Rightarrow> nat \<Rightarrow> nat" where
  "slice_bound k n = (if k < 0 then nat (max (k + int n) 0) else min (nat k) n)"

definition slice_start :: "int \<times> int \<Rightarrow> nat \<Rightarrow> nat" where
  "slice_start s n = slice_bound (fst s) n"

definition slice_len :: "int \<times> int \<Rightarrow> nat \<Rightarrow> nat" where
  "slice_len s n = slice_bound (snd s) n - slice_bound (fst s) n"

text \<open>
  \<^verbatim>\<open>image[z0:z1, y0:y1, x0:x1]\<close>: three slices on the three leading axes. An array of
  fewer than three axes raises IndexError (too many indices); further axes are kept
  whole.
\<close>

definition getitem3 ::
  "'a ndarray \<Rightarrow> int \<times> int \<Rightarrow> int \<times> int \<Rightarrow> int \<times> int \<Rightarrow> py_error + 'a ndarray" where
  "getitem3 a zs ys xs =
     (case shape a of
        nz # ny # nx # rest \<Rightarrow>
          Inr \<lparr>shape = slice_len zs nz # slice_len ys ny # slice_len xs nx # rest,
               item = (\<lambda>idx. case idx of
                         i # j # k # others \<Rightarrow>
                           item a ((slice_start zs nz + i) # (slice_start ys ny + j)
                                   # (slice_start xs nx + k) # others)
                       | _ \<Rightarrow> item a idx)\<rparr>
      | _ \<Rightarrow> Inl IndexError)"

subsection \<open>Tables\<close>

text \<open>
  A \<^verbatim>\<open>pd.DataFrame\<close>: the number of rows and the named columns. The cells of a spot
  table are finite numbers (float64 and int64 columns alike are read as reals, without
  rounding and within the range of int64; \<open>astype_int\<close> is the cast to integer). The
  rows carry the default index, so that columns align by position. Reading a column
  that is absent raises KeyError; assigning a column adds or replaces it.
  \<open>SpotAttributes\<close> wraps such a table as \<^verbatim>\<open>.data\<close>.
\<close>

record 'c dataframe =
  nrows :: nat
  cols :: "string \<rightharpoonup> 'c list"

type_synonym SpotAttributes = "real dataframe"

text \<open>Every column of a table has one cell per row.\<close>

definition df_ok :: "'c dataframe \<Rightarrow> bool" where
  "df_ok df = (\<forall>name xs. cols df name = Some xs \<longrightarrow> length xs = nrows df)"

definition getcol :: "'c dataframe \<Rightarrow> string \<Rightarrow> py_error + 'c list" where
  "getcol df name = (case cols df name of None \<Rightarrow> Inl KeyError | Some xs \<Rightarrow> Inr xs)"

definition setcol :: "'c dataframe \<Rightarrow> string \<Rightarrow> 'c list \<Rightarrow> 'c dataframe" where
  "setcol df name xs = df\<lparr>cols := (cols df)(name \<mapsto> xs)\<rparr>"

text \<open>\<^verbatim>\<open>.astype(int)\<close> on a finite float: truncation toward zero.\<close>

definition astype_int :: "real \<Rightarrow> int" where
  "astype_int r = (if 0 \<le> r then \<lfloor>r\<rfloor> else \<lceil>r\<rceil>)"

text \<open>\<^verbatim>\<open>np.clip(a, a_min, a_max)\<close>, where \<^verbatim>\<open>None\<close> leaves that side open.\<close>

definition np_clip :: "real \<Rightarrow> real option \<Rightarrow> real option \<Rightarrow> real" where
  "np_clip a a_min a_max =
     (let lo = (case a_min of None \<Rightarrow> a | Some m \<Rightarrow> max a m)
      in case a_max of None \<Rightarrow> lo | Some m \<Rightarrow> min lo m)"

text \<open>
  \<^verbatim>\<open>Features.SPOT_RADIUS\<close>, the name of the radius column (declared in
  \<^verbatim>\<open>starfish.core.types\<close>; the comment at detect.py:149 lists the column as radius).
\<close>

definition SPOT_RADIUS :: string where
  "SPOT_RADIUS = ''radius''"

subsection \<open>measure_spot_intensity (detect.py:16-64)\<close>

text \<open>Lines 53-56: the integer radius of one spot under either policy.\<close>

definition spot_radius :: "bool \<Rightarrow> real \<Rightarrow> int" where
  "spot_radius radius_is_gyration r =
     (if radius_is_gyration then astype_int (of_int \<lceil>r\<rceil>) + 1 else astype_int r)"

text \<open>
  Lines 57-60: for each pair of the zip of the axis names with the image's shape, read
  the centre column and assign the two bound columns (the centre column is read again
  for the second assignment, as the source does).
\<close>

fun box_columns :: "(string \<times> nat) list \<Rightarrow> int list \<Rightarrow> SpotAttributes \<Rightarrow> py_error + SpotAttributes" where
  "box_columns [] radius df = Inr df"
| "box_columns ((v, max_size) # rest) radius df =
     (case getcol df v of
        Inl e \<Rightarrow> Inl e
      | Inr c1 \<Rightarrow>
          let df1 = setcol df (v @ ''_min'')
                      (map2 (\<lambda>c r. np_clip (c - of_int (r - 1)) (Some 0) None) c1 radius)
          in (case getcol df1 v of
                Inl e \<Rightarrow> Inl e
              | Inr c2 \<Rightarrow>
                  box_columns rest radius
                    (setcol df1 (v @ ''_max'')
                       (map2 (\<lambda>c r. np_clip (c + of_int r) None (Some (of_nat max_size)))
                          c2 radius))))"

definition box_table :: "'a ndarray \<Rightarrow> SpotAttributes \<Rightarrow> bool \<Rightarrow> py_error + SpotAttributes" where
  "box_table img spots radius_is_gyration =
     (case getcol spots SPOT_RADIUS of
        Inl e \<Rightarrow> Inl e
      | Inr rs \<Rightarrow>
          box_columns (zip [''z'', ''y'', ''x''] (shape img))
            (map (spot_radius radius_is_gyration) rs) spots)"

text \<open>
  Line 61: the six bound columns, selected by name (KeyError when one is absent) and cast
  to integers; one row per spot.
\<close>

record box =
  z_min :: int
  z_max :: int
  y_min :: int
  y_max :: int
  x_min :: int
  x_max :: int

definition box_rows :: "real dataframe \<Rightarrow> py_error + box list" where
  "box_rows df =
     (case (cols df ''z_min'', cols df ''z_max'', cols df ''y_min'', cols df ''y_max'',
            cols df ''x_min'', cols df ''x_max'') of
        (Some z0, Some z1, Some y0, Some y1, Some x0, Some x1) \<Rightarrow>
          Inr (map (\<lambda>(a, b, c, d, e, f).
                      \<lparr>z_min = astype_int a, z_max = astype_int b,
                       y_min = astype_int c, y_max = astype_int d,
                       x_min = astype_int e, x_max = astype_int f\<rparr>)
                 (zip z0 (zip z1 (zip y0 (zip y1 (zip x0 x1))))))
      | _ \<Rightarrow> Inl KeyError)"

text \<open>Lines 45-51: the measurement of one row. The measurement function may raise.\<close>

definition fn :: "'a ndarray \<Rightarrow> ('a ndarray \<Rightarrow> py_error + real) \<Rightarrow> box \<Rightarrow> py_error + real" where
  "fn img measurement_function row =
     (case getitem3 img (z_min row, z_max row) (y_min row, y_max row) (x_min row, x_max row) of
        Inl e \<Rightarrow> Inl e
      | Inr data \<Rightarrow> measurement_function data)"

text \<open>\<^verbatim>\<open>.apply(fn, axis=1)\<close>: row by row, stopping at the first exception.\<close>

fun apply_rows :: "('r \<Rightarrow> py_error + 'v) \<Rightarrow> 'r list \<Rightarrow> py_error + 'v list" where
  "apply_rows f [] = Inr []"
| "apply_rows f (r # rs) =
     (case f r of
        Inl e \<Rightarrow> Inl e
      | Inr v \<Rightarrow> (case apply_rows f rs of Inl e \<Rightarrow> Inl e | Inr vs \<Rightarrow> Inr (v # vs)))"

text \<open>
  The whole function: the intensities, one per spot, and the caller's table as the call
  leaves it.
\<close>

definition measure_spot_intensity ::
  "'a ndarray \<Rightarrow> SpotAttributes \<Rightarrow> ('a ndarray \<Rightarrow> py_error + real) \<Rightarrow> bool
     \<Rightarrow> py_error + (real list \<times> SpotAttributes)" where
  "measure_spot_intensity img spots measurement_function radius_is_gyration =
     (case box_table img spots radius_is_gyration of
        Inl e \<Rightarrow> Inl e
      | Inr spots' \<Rightarrow>
          (case box_rows spots' of
             Inl e \<Rightarrow> Inl e
           | Inr rows \<Rightarrow>
               (case apply_rows (fn img measurement_function) rows of
                  Inl e \<Rightarrow> Inl e
                | Inr res \<Rightarrow> Inr (res, spots'))))"

subsection \<open>IntensityTable\<close>

text \<open>
  Modelled from the spec: \<^verbatim>\<open>IntensityTable\<close> (starfish.core.intensity_table, not among
  the sources at hand). "A 3-D tensor indexed by (feature, channel, round) holding a scalar
  intensity per cell, plus per-feature side-table columns carried alongside"; a feature is
  addressed by its position, a channel and a round by their labels. A per-feature cell
  may be missing (\<open>None\<close>, pandas' NaN). \<open>writes\<close> records the cells assigned since
  allocation, in order.
\<close>

record intensity_table =
  features :: "real option dataframe"
  c_labels :: "int list"
  r_labels :: "int list"
  cell :: "nat \<Rightarrow> int \<Rightarrow> int \<Rightarrow> real"
  writes :: "(nat \<times> int \<times> int) list"

text \<open>\<^verbatim>\<open>intensity_table.sizes[Features.AXIS]\<close>: the length of the feature axis.\<close>

definition n_features :: "intensity_table \<Rightarrow> nat" where
  "n_features t = nrows (features t)"

text \<open>A spot table read as per-feature columns: no cell is missing.\<close>

definition as_features :: "SpotAttributes \<Rightarrow> real option dataframe" where
  "as_features df = \<lparr>nrows = nrows df, cols = (\<lambda>name. map_option (map Some) (cols df name))\<rparr>"

text \<open>
  Modelled from the spec: \<^verbatim>\<open>IntensityTable.zeros(spot_attributes, round_labels, ch_labels)\<close>
  "allocate an IntensityTable sized (spot_count, channel_count, round_count) initialized
  to a neutral fill value (zero)". The positional order is the one in which the keyword
  call at detect.py:101-105 lists the arguments.
\<close>

definition IntensityTable_zeros ::
  "real option dataframe \<Rightarrow> int list \<Rightarrow> int list \<Rightarrow> intensity_table" where
  "IntensityTable_zeros spot_attributes round_labels ch_labels =
     \<lparr>features = spot_attributes, c_labels = ch_labels, r_labels = round_labels,
      cell = (\<lambda>i c r. 0), writes = []\<rparr>"

text \<open>
  Modelled from the spec: \<^verbatim>\<open>intensity_table.loc[dict(c=c, r=r)] = series\<close> "write the
  resulting column into the tensor at that (*, channel, round) slot". A label that is
  not on the axis raises KeyError, a column of the wrong length ValueError.
\<close>

definition loc_set_cr ::
  "intensity_table \<Rightarrow> int \<Rightarrow> int \<Rightarrow> real list \<Rightarrow> py_error + intensity_table" where
  "loc_set_cr t c r vs =
     (if c \<notin> set (c_labels t) \<or> r \<notin> set (r_labels t) then Inl KeyError
      else if length vs \<noteq> n_features t then Inl ValueError
      else Inr (t\<lparr>cell := (\<lambda>i c' r'. if i < length vs \<and> c' = c \<and> r' = r then vs ! i
                                     else cell t i c' r'),
                  writes := writes t @ map (\<lambda>i. (i, c, r)) [0..<length vs]\<rparr>))"

text \<open>
  Modelled from the spec: \<^verbatim>\<open>intensity_table.loc[dict(features=i, c=c, r=r)] = value\<close>,
  the assignment of one cell "indexed by (this feature's position in the combined table,
  this frame's channel, this frame's round)".
\<close>

definition loc_set_fcr ::
  "intensity_table \<Rightarrow> nat \<Rightarrow> int \<Rightarrow> int \<Rightarrow> real \<Rightarrow> py_error + intensity_table" where
  "loc_set_fcr t i c r v =
     (if \<not> i < n_features t \<or> c \<notin> set (c_labels t) \<or> r \<notin> set (r_labels t) then Inl KeyError
      else Inr (t\<lparr>cell := (\<lambda>i' c' r'. if i' = i \<and> c' = c \<and> r' = r then v
                                      else cell t i' c' r'),
                  writes := writes t @ [(i, c, r)]\<rparr>))"

subsection \<open>ImageStack\<close>

datatype Axes = ROUND | CH | ZPLANE | Y | X

text \<open>
  The image stack is an external collaborator: a value of an abstract type \<open>'s\<close> with
  the methods the code calls on it. \<open>get_slice s c r\<close> is the frame of
  \<^verbatim>\<open>get_slice({Axes.CH: c, Axes.ROUND: r})\<close>; \<open>transform\<close> is the grouped map
  (function, group_by, n_processes), returning each result with the indices of its
  frame; \<open>transfer_physical_coords\<close> is
  \<^verbatim>\<open>transfer_physical_coords_to_intensity_table\<close>, which changes the table in place.
\<close>

record ('s, 'a) stack_ops =
  axis_labels :: "'s \<Rightarrow> Axes \<Rightarrow> int list"
  get_slice :: "'s \<Rightarrow> int \<Rightarrow> int \<Rightarrow> 'a ndarray"
  max_proj :: "'s \<Rightarrow> Axes list \<Rightarrow> 's"
  squeezed_numpy :: "'s \<Rightarrow> Axes list \<Rightarrow> 'a ndarray"
  xarray :: "'s \<Rightarrow> 'a ndarray"
  transform ::
    "'s \<Rightarrow> ('a ndarray \<Rightarrow> py_error + SpotAttributes) \<Rightarrow> Axes set \<Rightarrow> nat option
       \<Rightarrow> py_error + (SpotAttributes \<times> (Axes \<rightharpoonup> int)) list"
  transfer_physical_coords :: "'s \<Rightarrow> intensity_table \<Rightarrow> intensity_table"

subsection \<open>measure_spot_intensities (detect.py:67-123)\<close>

text \<open>
  The result of a run: the table, the caller's spot table as the run leaves it, and the
  frames retrieved from the stack, in order.
\<close>

record measured =
  table :: intensity_table
  spots_after :: SpotAttributes
  frames_read :: "(int \<times> int) list"

text \<open>Lines 113-121: the loop over the (channel, round) pairs.\<close>

fun fill_table ::
  "('s, 'a) stack_ops \<Rightarrow> 's \<Rightarrow> ('a ndarray \<Rightarrow> py_error + real) \<Rightarrow> bool
     \<Rightarrow> (int \<times> int) list \<Rightarrow> measured \<Rightarrow> py_error + measured" where
  "fill_table ops data_image measurement_function g [] m = Inr m"
| "fill_table ops data_image measurement_function g ((c, r) # indices) m =
     (let img = get_slice ops data_image c r
      in case measure_spot_intensity img (spots_after m) measurement_function g of
           Inl e \<Rightarrow> Inl e
         | Inr (blob_intensities, spots') \<Rightarrow>
             (case loc_set_cr (table m) c r blob_intensities of
                Inl e \<Rightarrow> Inl e
              | Inr t \<Rightarrow>
                  fill_table ops data_image measurement_function g indices
                    \<lparr>table = t, spots_after = spots',
                     frames_read = frames_read m @ [(c, r)]\<rparr>))"

definition measure_spot_intensities ::
  "('s, 'a) stack_ops \<Rightarrow> 's \<Rightarrow> SpotAttributes \<Rightarrow> ('a ndarray \<Rightarrow> py_error + real) \<Rightarrow> bool
     \<Rightarrow> py_error + measured" where
  "measure_spot_intensities ops data_image spot_attributes measurement_function radius_is_gyration =
     (let ch_labels = axis_labels ops data_image CH;
          round_labels = axis_labels ops data_image ROUND;
          intensity_table =
            IntensityTable_zeros (as_features spot_attributes) round_labels ch_labels
      in if n_features intensity_table = 0
         then Inr \<lparr>table = intensity_table, spots_after = spot_attributes, frames_read = []\<rparr>
         else fill_table ops data_image measurement_function radius_is_gyration
                (List.product ch_labels round_labels)
                \<lparr>table = intensity_table, spots_after = spot_attributes, frames_read = []\<rparr>)"

subsection \<open>concatenate_spot_attributes_to_intensities (detect.py:126-163)\<close>

text \<open>\<^verbatim>\<open>inds[axis] for _, inds in spot_attributes\<close>: KeyError at the first frame without the key.\<close>

fun frame_indices ::
  "Axes \<Rightarrow> (SpotAttributes \<times> (Axes \<rightharpoonup> int)) list \<Rightarrow> py_error + int list" where
  "frame_indices ax [] = Inr []"
| "frame_indices ax ((sa, inds) # rest) =
     (case inds ax of
        None \<Rightarrow> Inl KeyError
      | Some v \<Rightarrow> (case frame_indices ax rest of Inl e \<Rightarrow> Inl e | Inr vs \<Rightarrow> Inr (v # vs)))"

text \<open>
  \<^verbatim>\<open>pd.concat(frames, sort=True)\<close>: the rows of all frames in order, under the union of
  their columns; a frame without a column contributes missing cells (\<open>None\<close>) to it.
  An empty list of frames raises ValueError.
\<close>

definition pd_concat :: "real dataframe list \<Rightarrow> py_error + real option dataframe" where
  "pd_concat dfs =
     (if dfs = [] then Inl ValueError
      else Inr \<lparr>nrows = sum_list (map nrows dfs),
                cols = (\<lambda>name.
                  if list_ex (\<lambda>df. cols df name \<noteq> None) dfs
                  then Some (concat (map (\<lambda>df. case cols df name of
                                                   None \<Rightarrow> replicate (nrows df) None
                                                 | Some xs \<Rightarrow> map Some xs) dfs))
                  else None)\<rparr>)"

text \<open>\<^verbatim>\<open>df.drop(names, axis=1)\<close>: KeyError when a name is not a column.\<close>

definition df_drop :: "'c dataframe \<Rightarrow> string list \<Rightarrow> py_error + 'c dataframe" where
  "df_drop df names =
     (if list_all (\<lambda>n. cols df n \<noteq> None) names
      then Inr (df\<lparr>cols := (\<lambda>n. if n \<in> set names then None else cols df n)\<rparr>)
      else Inl KeyError)"

text \<open>\<^verbatim>\<open>df.iterrows()\<close>: the rows in order, each a mapping from column name to cell.\<close>

definition iterrows :: "'c dataframe \<Rightarrow> (string \<rightharpoonup> 'c) list" where
  "iterrows df = map (\<lambda>j. (\<lambda>name. map_option (\<lambda>xs. xs ! j) (cols df name))) [0..<nrows df]"

text \<open>
  Lines 158-161: the rows of one frame; \<open>i\<close> is the running feature index. The selector
  looks the frame's channel and round up for every row, then the row's intensity is read.
\<close>

fun assign_rows ::
  "(Axes \<rightharpoonup> int) \<Rightarrow> (string \<rightharpoonup> real) list \<Rightarrow> intensity_table \<times> nat
     \<Rightarrow> py_error + (intensity_table \<times> nat)" where
  "assign_rows inds [] (t, i) = Inr (t, i)"
| "assign_rows inds (row # rows) (t, i) =
     (case (inds CH, inds ROUND, row ''intensity'') of
        (Some c, Some r, Some v) \<Rightarrow>
          (case loc_set_fcr t i c r v of
             Inl e \<Rightarrow> Inl e
           | Inr t' \<Rightarrow> assign_rows inds rows (t', i + 1))
      | _ \<Rightarrow> Inl KeyError)"

text \<open>Lines 156-161: the frames in order.\<close>

fun assign_frames ::
  "(SpotAttributes \<times> (Axes \<rightharpoonup> int)) list \<Rightarrow> intensity_table \<times> nat
     \<Rightarrow> py_error + (intensity_table \<times> nat)" where
  "assign_frames [] (t, i) = Inr (t, i)"
| "assign_frames ((attrs, inds) # rest) (t, i) =
     (case assign_rows inds (iterrows attrs) (t, i) of
        Inl e \<Rightarrow> Inl e
      | Inr ti \<Rightarrow> assign_frames rest ti)"

definition concatenate_spot_attributes_to_intensities ::
  "(SpotAttributes \<times> (Axes \<rightharpoonup> int)) list \<Rightarrow> py_error + intensity_table" where
  "concatenate_spot_attributes_to_intensities spot_attributes =
     (case frame_indices CH spot_attributes of
        Inl e \<Rightarrow> Inl e
      | Inr chs \<Rightarrow>
     (case frame_indices ROUND spot_attributes of
        Inl e \<Rightarrow> Inl e
      | Inr rounds \<Rightarrow>
     (let ch_values = sort (remdups chs);
          round_values = sort (remdups rounds)
      in case pd_concat (map fst spot_attributes) of
           Inl e \<Rightarrow> Inl e
         | Inr all_spots \<Rightarrow>
     (case df_drop all_spots [''spot_id'', ''intensity''] of
        Inl e \<Rightarrow> Inl e
      | Inr features_coordinates \<Rightarrow>
     (case assign_frames spot_attributes
             (IntensityTable_zeros features_coordinates round_values ch_values, 0) of
        Inl e \<Rightarrow> Inl e
      | Inr (intensity_table, i) \<Rightarrow> Inr intensity_table)))))"

subsection \<open>detect_spots (detect.py:166-248)\<close>

text \<open>The calls to collaborators that a run makes, in order.\<close>

datatype event =
  Max_proj "Axes list" | Spot_finding | Get_slice int int | Stack_transform | Transfer_coords

text \<open>
  The spot-finding function takes the image and the keyword arguments and may raise;
  \<^verbatim>\<open>spot_finding_kwargs=None\<close> stands for no keyword argument. The run returns the
  table after the coordinate transfer, with the collaborators called on the way.
\<close>

definition detect_spots ::
  "('s, 'a) stack_ops \<Rightarrow> 's
     \<Rightarrow> ('a ndarray \<Rightarrow> (string \<rightharpoonup> 'k) \<Rightarrow> py_error + SpotAttributes)
     \<Rightarrow> (string \<rightharpoonup> 'k) option \<Rightarrow> 's option \<Rightarrow> Axes list option
     \<Rightarrow> ('a ndarray \<Rightarrow> py_error + real) \<Rightarrow> bool \<Rightarrow> nat option
     \<Rightarrow> py_error + (intensity_table \<times> event list)" where
  "detect_spots ops data_stack spot_finding_method spot_finding_kwargs reference_image
       reference_image_max_projection_axes measurement_function radius_is_gyration n_processes =
     (let kwargs = (case spot_finding_kwargs of None \<Rightarrow> Map.empty | Some kw \<Rightarrow> kw)
      in case reference_image of
           Some ref \<Rightarrow>
             (let (data_image, projected) =
                    (case reference_image_max_projection_axes of
                       Some axes \<Rightarrow>
                         (squeezed_numpy ops (max_proj ops ref axes) axes, [Max_proj axes])
                     | None \<Rightarrow> (xarray ops ref, []))
              in case spot_finding_method data_image kwargs of
                   Inl e \<Rightarrow> Inl e
                 | Inr reference_spot_locations \<Rightarrow>
                     (case measure_spot_intensities ops data_stack reference_spot_locations
                             measurement_function radius_is_gyration of
                        Inl e \<Rightarrow> Inl e
                      | Inr m \<Rightarrow>
                          Inr (transfer_physical_coords ops data_stack (table m),
                               projected @ [Spot_finding]
                               @ map (\<lambda>(c, r). Get_slice c r) (frames_read m)
                               @ [Transfer_coords])))
         | None \<Rightarrow>
             (case transform ops data_stack (\<lambda>img. spot_finding_method img kwargs)
                     {ROUND, CH} n_processes of
                Inl e \<Rightarrow> Inl e
              | Inr spot_attributes_list \<Rightarrow>
                  (case concatenate_spot_attributes_to_intensities spot_attributes_list of
                     Inl e \<Rightarrow> Inl e
                   | Inr intensity_table \<Rightarrow>
                       Inr (transfer_physical_coords ops data_stack intensity_table,
                            [Stack_transform, Transfer_coords]))))"

subsection \<open>Readings of the box computation\<close>

text \<open>The integer boxes that a call of \<open>measure_spot_intensity\<close> hands to \<open>fn\<close>.\<close>

definition spot_boxes :: "'a ndarray \<Rightarrow> SpotAttributes \<Rightarrow> bool \<Rightarrow> py_error + box list" where
  "spot_boxes img spots g =
     (case box_table img spots g of Inl e \<Rightarrow> Inl e | Inr spots' \<Rightarrow> box_rows spots')"







subsection \<open>Example data\<close>

text \<open>A 3 x 3 x 3 volume, 9 at its centre and 0 elsewhere.\<close>

definition ex_image :: "real ndarray" where
  "ex_image = \<lparr>shape = [3, 3, 3], item = (\<lambda>idx. if idx = [1, 1, 1] then 9 else 0)\<rparr>"

text \<open>A table of one spot.\<close>

definition ex_spot :: "real \<Rightarrow> real \<Rightarrow> real \<Rightarrow> real \<Rightarrow> SpotAttributes" where
  "ex_spot z y x r =
     \<lparr>nrows = 1, cols = [''z'' \<mapsto> [z], ''y'' \<mapsto> [y], ''x'' \<mapsto> [x], ''radius'' \<mapsto> [r]]\<rparr>"

text \<open>
  Two measurement functions: the first cell of the region, raising ValueError on an
  empty region as \<^verbatim>\<open>np.max\<close> does, and the number of cells of the region.
\<close>

definition corner_value :: "real ndarray \<Rightarrow> py_error + real" where
  "corner_value a = (if 0 \<in> set (shape a) then Inl ValueError else Inr (item a [0, 0, 0]))"


text \<open>The spot at (1, 1, 1) of radius 3/2 after a call with radius truncation.\<close>

definition ex_boxed :: SpotAttributes where
  "ex_boxed =
     \<lparr>nrows = 1,
      cols = [''z'' \<mapsto> [1], ''y'' \<mapsto> [1], ''x'' \<mapsto> [1], ''radius'' \<mapsto> [3/2],
              ''z_min'' \<mapsto> [1], ''z_max'' \<mapsto> [2], ''y_min'' \<mapsto> [1], ''y_max'' \<mapsto> [2],
              ''x_min'' \<mapsto> [1], ''x_max'' \<mapsto> [2]]\<rparr>"


text \<open>
  A second volume, 4 at its centre, and a stack of two channels and one round, whose
  coordinate transfer attaches a column \<open>xc\<close> to the features.
\<close>

definition ex_image2 :: "real ndarray" where
  "ex_image2 = \<lparr>shape = [3, 3, 3], item = (\<lambda>idx. if idx = [1, 1, 1] then 4 else 0)\<rparr>"

definition ex_ops :: "(unit, real) stack_ops" where
  "ex_ops =
     \<lparr>axis_labels = (\<lambda>s ax. if ax = CH then [0, 1] else if ax = ROUND then [0] else []),
      get_slice = (\<lambda>s c r. if c = 0 then ex_image else ex_image2),
      max_proj = (\<lambda>s axes. s),
      squeezed_numpy = (\<lambda>s axes. ex_image),
      xarray = (\<lambda>s. ex_image),
      transform = (\<lambda>s f group_by n_processes.
         case f ex_image2 of
           Inl e \<Rightarrow> Inl e
         | Inr a \<Rightarrow>
             (case f ex_image of
                Inl e \<Rightarrow> Inl e
              | Inr b \<Rightarrow> Inr [(a, [CH \<mapsto> 1, ROUND \<mapsto> 0]), (b, [CH \<mapsto> 0, ROUND \<mapsto> 0])])),
      transfer_physical_coords = (\<lambda>s t.
         t\<lparr>features := setcol (features t) ''xc''
                            (replicate (nrows (features t)) (Some 0))\<rparr>)\<rparr>"

text \<open>A spot table without rows.\<close>

definition ex_no_spots :: SpotAttributes where
  "ex_no_spots =
     \<lparr>nrows = 0, cols = [''z'' \<mapsto> [], ''y'' \<mapsto> [], ''x'' \<mapsto> [], ''radius'' \<mapsto> []]\<rparr>"

text \<open>
  The result of a spot finder on one frame: one spot at (1, 1, 1) with its intensity.
  Two frames in which the same spot was found, listed with channel 1 before channel 0.
\<close>

definition ex_found :: "real \<Rightarrow> SpotAttributes" where
  "ex_found v =
     \<lparr>nrows = 1,
      cols = [''z'' \<mapsto> [1], ''y'' \<mapsto> [1], ''x'' \<mapsto> [1], ''radius'' \<mapsto> [3/2],
              ''spot_id'' \<mapsto> [0], ''intensity'' \<mapsto> [v]]\<rparr>"

definition ex_frames :: "(SpotAttributes \<times> (Axes \<rightharpoonup> int)) list" where
  "ex_frames = [(ex_found 4, [CH \<mapsto> 1, ROUND \<mapsto> 0]), (ex_found 9, [CH \<mapsto> 0, ROUND \<mapsto> 0])]"

text \<open>
  A 2-D image, and the table without rows as a call on the 3-D example volume leaves it.
\<close>

definition ex_image_2d :: "real ndarray" where
  "ex_image_2d = \<lparr>shape = [3, 3], item = (\<lambda>idx. 0)\<rparr>"

definition ex_no_spots_boxed :: SpotAttributes where
  "ex_no_spots_boxed =
     \<lparr>nrows = 0,
      cols = [''z'' \<mapsto> [], ''y'' \<mapsto> [], ''x'' \<mapsto> [], ''radius'' \<mapsto> [],
              ''z_min'' \<mapsto> [], ''z_max'' \<mapsto> [], ''y_min'' \<mapsto> [], ''y_max'' \<mapsto> [],
              ''x_min'' \<mapsto> [], ''x_max'' \<mapsto> []]\<rparr>"

text \<open>A table of one spot that has no z column.\<close>

definition ex_no_z :: SpotAttributes where
  "ex_no_z = \<lparr>nrows = 1, cols = [''y'' \<mapsto> [1], ''x'' \<mapsto> [1], ''radius'' \<mapsto> [3/2]]\<rparr>"

text \<open>
  Two spot finders: one that reports the spot at (1, 1, 1) whatever the image, and one
  that also reports the intensity of the image at that spot.
\<close>

definition ex_finder_ref :: "real ndarray \<Rightarrow> (string \<rightharpoonup> unit) \<Rightarrow> py_error + SpotAttributes" where
  "ex_finder_ref img kwargs = Inr (ex_spot 1 1 1 (3/2))"

definition ex_finder :: "real ndarray \<Rightarrow> (string \<rightharpoonup> unit) \<Rightarrow> py_error + SpotAttributes" where
  "ex_finder img kwargs = Inr (ex_found (item img [1, 1, 1]))"

section \<open>Properties of measure_spot_intensity\<close>

subsection \<open>Casts, radii and slices\<close>
















subsection \<open>The stages of a call\<close>

lemmas model_defs =
  measure_spot_intensity_def spot_boxes_def box_table_def box_rows_def getcol_def setcol_def
  SPOT_RADIUS_def spot_radius_def astype_int_def np_clip_def fn_def getitem3_def
  slice_len_def slice_start_def slice_bound_def

lemma df_ok_length: "df_ok df \<Longrightarrow> cols df name = Some xs \<Longrightarrow> length xs = nrows df"
  by (simp add: df_ok_def)


lemma measure_spot_intensity_stages:
  assumes "measure_spot_intensity img spots measurement_function g = Inr (res, spots')"
  shows "\<exists>rows. box_table img spots g = Inr spots' \<and> box_rows spots' = Inr rows \<and>
           spot_boxes img spots g = Inr rows \<and>
           apply_rows (fn img measurement_function) rows = Inr res"
  using assms
  by (auto simp add: measure_spot_intensity_def spot_boxes_def split: sum.splits)










subsection \<open>The example runs\<close>

lemma ex_spot_ok: "df_ok (ex_spot z y x r)"
  by (simp add: df_ok_def ex_spot_def)



lemma ex_run:
  "measure_spot_intensity ex_image (ex_spot 1 1 1 (3/2)) corner_value False = Inr ([9], ex_boxed)"
  by (simp add: model_defs ex_image_def ex_spot_def corner_value_def ex_boxed_def)




subsection \<open>What a call leaves of the table\<close>

lemma box_columns_frame:
  assumes "box_columns axes radius df = Inr df'"
  shows "nrows df' = nrows df \<and>
         (\<forall>w. (\<forall>(v, n) \<in> set axes. w \<noteq> v @ ''_min'' \<and> w \<noteq> v @ ''_max'') \<longrightarrow> cols df' w = cols df w)"
  using assms
proof (induction axes arbitrary: df)
  case Nil
  then show ?case by simp
next
  case (Cons a axes)
  obtain v n where a: "a = (v, n)" by (cases a)
  from Cons.prems obtain c1 c2 where
    rec: "box_columns axes radius
            (setcol (setcol df (v @ ''_min'')
                       (map2 (\<lambda>c r. np_clip (c - of_int (r - 1)) (Some 0) None) c1 radius))
                    (v @ ''_max'')
                    (map2 (\<lambda>c r. np_clip (c + of_int r) None (Some (of_nat n))) c2 radius)) = Inr df'"
    by (auto simp add: a Let_def split: sum.splits)
  from Cons.IH [OF rec] show ?case
    by (auto simp add: a setcol_def)
qed

lemma box_columns_ok:
  assumes "box_columns axes radius df = Inr df'" and "df_ok df" and "length radius = nrows df"
  shows "df_ok df'"
  using assms
proof (induction axes arbitrary: df)
  case Nil
  then show ?case by simp
next
  case (Cons a axes)
  obtain v n where a: "a = (v, n)" by (cases a)
  let ?lo = "\<lambda>c1. map2 (\<lambda>c r. np_clip (c - of_int (r - 1)) (Some 0) None) c1 radius"
  let ?hi = "\<lambda>c2. map2 (\<lambda>c r. np_clip (c + of_int r) None (Some (of_nat n))) c2 radius"
  from Cons.prems(1) obtain c1 c2 where
    c1: "cols df v = Some c1" and
    c2: "cols (setcol df (v @ ''_min'') (?lo c1)) v = Some c2" and
    rec: "box_columns axes radius
            (setcol (setcol df (v @ ''_min'') (?lo c1)) (v @ ''_max'') (?hi c2)) = Inr df'"
    by (auto simp add: a Let_def getcol_def split: sum.splits option.splits)
  have l1: "length c1 = nrows df" using Cons.prems(2) c1 by (simp add: df_ok_length)
  have "c2 = c1" using c1 c2 by (simp add: setcol_def)
  then have l2: "length c2 = nrows df" using l1 by simp
  have ok: "df_ok (setcol (setcol df (v @ ''_min'') (?lo c1)) (v @ ''_max'') (?hi c2))"
    using Cons.prems(2,3) l1 l2 by (auto simp add: df_ok_def setcol_def)
  have n: "length radius = nrows (setcol (setcol df (v @ ''_min'') (?lo c1)) (v @ ''_max'') (?hi c2))"
    using Cons.prems(3) by (simp add: setcol_def)
  from Cons.IH [OF rec ok n] show ?case .
qed

text \<open>
  The box stage keeps the number of rows, every column other than the bound columns of
  the axes it visits, and the well-formedness of the table.
\<close>

lemma box_table_frame:
  assumes "box_table img spots g = Inr spots'"
  shows "nrows spots' = nrows spots"
    and "cols spots' ''z'' = cols spots ''z''" and "cols spots' ''y'' = cols spots ''y''"
    and "cols spots' ''x'' = cols spots ''x''"
    and "cols spots' SPOT_RADIUS = cols spots SPOT_RADIUS"
    and "df_ok spots \<Longrightarrow> df_ok spots'"
proof -
  from assms obtain rs where rs: "cols spots SPOT_RADIUS = Some rs"
    and bc: "box_columns (zip [''z'', ''y'', ''x''] (shape img)) (map (spot_radius g) rs) spots
              = Inr spots'"
    by (auto simp add: box_table_def getcol_def split: option.splits)
  have names: "\<forall>(v, n) \<in> set (zip [''z'', ''y'', ''x''] (shape img)). v \<in> {''z'', ''y'', ''x''}"
    by (auto dest: set_zip_leftD)
  from box_columns_frame [OF bc] have n: "nrows spots' = nrows spots"
    and fr: "\<And>w. (\<forall>(v, n) \<in> set (zip [''z'', ''y'', ''x''] (shape img)).
                 w \<noteq> v @ ''_min'' \<and> w \<noteq> v @ ''_max'') \<Longrightarrow> cols spots' w = cols spots w"
    by simp_all
  show "nrows spots' = nrows spots" by (rule n)
  show "cols spots' ''z'' = cols spots ''z''" using names by (intro fr) auto
  show "cols spots' ''y'' = cols spots ''y''" using names by (intro fr) auto
  show "cols spots' ''x'' = cols spots ''x''" using names by (intro fr) auto
  show "cols spots' SPOT_RADIUS = cols spots SPOT_RADIUS"
    using names unfolding SPOT_RADIUS_def by (intro fr) auto
  show "df_ok spots'" if "df_ok spots"
    using box_columns_ok [OF bc that] that rs by (simp add: df_ok_length)
qed

subsection \<open>Images of fewer than three axes\<close>


lemma getitem3_low_dim: "length (shape a) < 3 \<Longrightarrow> getitem3 a zs ys xs = Inl IndexError"
  by (auto simp add: getitem3_def split: list.splits)

lemma box_rows_Inr:
  assumes "box_rows df = Inr rows"
  shows "\<exists>z0 z1 y0 y1 x0 x1.
           cols df ''z_min'' = Some z0 \<and> cols df ''z_max'' = Some z1 \<and>
           cols df ''y_min'' = Some y0 \<and> cols df ''y_max'' = Some y1 \<and>
           cols df ''x_min'' = Some x0 \<and> cols df ''x_max'' = Some x1 \<and>
           length rows = length (zip z0 (zip z1 (zip y0 (zip y1 (zip x0 x1)))))"
proof -
  obtain z0 where z0: "cols df ''z_min'' = Some z0"
    using assms by (cases "cols df ''z_min''") (simp_all add: box_rows_def)
  obtain z1 where z1: "cols df ''z_max'' = Some z1"
    using assms by (cases "cols df ''z_max''") (simp_all add: box_rows_def z0)
  obtain y0 where y0: "cols df ''y_min'' = Some y0"
    using assms by (cases "cols df ''y_min''") (simp_all add: box_rows_def z0 z1)
  obtain y1 where y1: "cols df ''y_max'' = Some y1"
    using assms by (cases "cols df ''y_max''") (simp_all add: box_rows_def z0 z1 y0)
  obtain x0 where x0: "cols df ''x_min'' = Some x0"
    using assms by (cases "cols df ''x_min''") (simp_all add: box_rows_def z0 z1 y0 y1)
  obtain x1 where x1: "cols df ''x_max'' = Some x1"
    using assms by (cases "cols df ''x_max''") (simp_all add: box_rows_def z0 z1 y0 y1 x0)
  have "length rows = length (zip z0 (zip z1 (zip y0 (zip y1 (zip x0 x1)))))"
    using assms by (auto simp add: box_rows_def z0 z1 y0 y1 x0 x1)
  with z0 z1 y0 y1 x0 x1 show ?thesis by blast
qed

lemma box_rows_nonempty:
  assumes "box_rows df = Inr rows" and "df_ok df" and "0 < nrows df"
  shows "rows \<noteq> []"
proof -
  from box_rows_Inr [OF assms(1)] obtain z0 z1 y0 y1 x0 x1 where
    c: "cols df ''z_min'' = Some z0" "cols df ''z_max'' = Some z1"
       "cols df ''y_min'' = Some y0" "cols df ''y_max'' = Some y1"
       "cols df ''x_min'' = Some x0" "cols df ''x_max'' = Some x1"
    and rows: "length rows = length (zip z0 (zip z1 (zip y0 (zip y1 (zip x0 x1)))))"
    by blast
  have "length rows = nrows df"
    unfolding rows using c assms(2) by (simp add: df_ok_length)
  with assms(3) show ?thesis by auto
qed

text \<open>With at least one row, an image of fewer than three axes makes the call raise.\<close>

lemma measure_low_dim_rows:
  assumes "length (shape img) < 3" and "df_ok spots" and "0 < nrows spots"
  shows "\<exists>e. measure_spot_intensity img spots measurement_function g = Inl e"
proof (cases "box_table img spots g")
  case (Inl e)
  then show ?thesis by (simp add: measure_spot_intensity_def)
next
  case (Inr spots')
  note bt = this
  show ?thesis
  proof (cases "box_rows spots'")
    case (Inl e)
    with bt show ?thesis by (simp add: measure_spot_intensity_def)
  next
    case (Inr rows)
    have "df_ok spots'" "0 < nrows spots'"
      using box_table_frame(1,6) [OF bt] assms(2,3) by simp_all
    from box_rows_nonempty [OF Inr this] obtain b bs where "rows = b # bs"
      by (cases rows) auto
    then have "apply_rows (fn img measurement_function) rows = Inl IndexError"
      by (simp add: fn_def getitem3_low_dim [OF assms(1)])
    with bt Inr show ?thesis by (simp add: measure_spot_intensity_def)
  qed
qed


subsection \<open>A call on an image of three or more axes\<close>







section \<open>Properties of measure_spot_intensities\<close>

lemma loc_set_cr_Inr:
  assumes "loc_set_cr t c r vs = Inr t'"
  shows "c \<in> set (c_labels t)" and "r \<in> set (r_labels t)" and "length vs = n_features t"
    and "features t' = features t" and "c_labels t' = c_labels t" and "r_labels t' = r_labels t"
    and "writes t' = writes t @ map (\<lambda>i. (i, c, r)) [0..<length vs]"
    and "cell t' = (\<lambda>i c' r'. if i < length vs \<and> c' = c \<and> r' = r then vs ! i
                               else cell t i c' r')"
  using assms by (auto simp add: loc_set_cr_def split: if_splits)

lemma fill_table_step:
  assumes run: "fill_table ops st mf g ((c, r) # indices) m0 = Inr m"
  shows "\<exists>blob spots' t. measure_spot_intensity (get_slice ops st c r) (spots_after m0) mf g
             = Inr (blob, spots') \<and>
           loc_set_cr (table m0) c r blob = Inr t \<and>
           fill_table ops st mf g indices
             \<lparr>table = t, spots_after = spots', frames_read = frames_read m0 @ [(c, r)]\<rparr> = Inr m"
  using run by (auto simp add: Let_def split: sum.splits prod.splits)








lemma measure_spot_intensities_cases:
  "measure_spot_intensities ops st sa mf g =
     (if nrows sa = 0
      then Inr \<lparr>table = IntensityTable_zeros (as_features sa) (axis_labels ops st ROUND)
                          (axis_labels ops st CH),
                spots_after = sa, frames_read = []\<rparr>
      else fill_table ops st mf g (List.product (axis_labels ops st CH) (axis_labels ops st ROUND))
             \<lparr>table = IntensityTable_zeros (as_features sa) (axis_labels ops st ROUND)
                        (axis_labels ops st CH),
              spots_after = sa, frames_read = []\<rparr>)"
  by (simp add: measure_spot_intensities_def Let_def n_features_def IntensityTable_zeros_def
      as_features_def)

lemma ex_ops_labels:
  "axis_labels ex_ops s CH = [0, 1]" "axis_labels ex_ops s ROUND = [0]"
  by (simp_all add: ex_ops_def)

lemma ex_ops_slices:
  "get_slice ex_ops s 0 r = ex_image" "get_slice ex_ops s 1 r = ex_image2"
  by (simp_all add: ex_ops_def)

lemma ex_spot_nrows: "nrows (ex_spot z y x r) = 1"
  by (simp add: ex_spot_def)


lemma ex_run2_boxed:
  "measure_spot_intensity ex_image2 ex_boxed corner_value False = Inr ([4], ex_boxed)"
  by (simp add: model_defs ex_image2_def corner_value_def ex_boxed_def)

lemma ex_stack_run:
  "\<exists>m. measure_spot_intensities ex_ops () (ex_spot 1 1 1 (3/2)) corner_value False = Inr m"
  by (simp add: measure_spot_intensities_cases ex_ops_labels ex_ops_slices ex_run ex_run2_boxed
      ex_spot_nrows loc_set_cr_def n_features_def IntensityTable_zeros_def as_features_def)

section \<open>Properties of concatenate_spot_attributes_to_intensities\<close>

lemma frame_indices_Inr:
  assumes "frame_indices ax sas = Inr vs"
  shows "length vs = length sas"
    and "set vs = {v. \<exists>sa inds. (sa, inds) \<in> set sas \<and> inds ax = Some v}"
    and "\<forall>(sa, inds) \<in> set sas. inds ax \<noteq> None"
  using assms
proof (induction sas arbitrary: vs)
  case Nil
  {
    case 1 then show ?case by simp
  next
    case 2 then show ?case by simp
  next
    case 3 then show ?case by simp
  }
next
  case (Cons p sas)
  obtain sa inds where p: "p = (sa, inds)" by (cases p)
  {
    case 1
    then obtain v vs' where "inds ax = Some v" "frame_indices ax sas = Inr vs'" "vs = v # vs'"
      by (auto simp add: p split: option.splits sum.splits)
    with Cons.IH(1) show ?case by simp
  next
    case 2
    then obtain v vs' where "inds ax = Some v" "frame_indices ax sas = Inr vs'" "vs = v # vs'"
      by (auto simp add: p split: option.splits sum.splits)
    with Cons.IH(2) [of vs'] show ?case by (auto simp add: p)
  next
    case 3
    then obtain v vs' where "inds ax = Some v" "frame_indices ax sas = Inr vs'" "vs = v # vs'"
      by (auto simp add: p split: option.splits sum.splits)
    with Cons.IH(3) [of vs'] show ?case by (auto simp add: p)
  }
qed

lemma loc_set_fcr_Inr:
  assumes "loc_set_fcr t i c r v = Inr t'"
  shows "i < n_features t" and "c \<in> set (c_labels t)" and "r \<in> set (r_labels t)"
    and "features t' = features t" and "c_labels t' = c_labels t" and "r_labels t' = r_labels t"
    and "writes t' = writes t @ [(i, c, r)]"
    and "cell t' = (\<lambda>i' c' r'. if i' = i \<and> c' = c \<and> r' = r then v else cell t i' c' r')"
  using assms by (auto simp add: loc_set_fcr_def split: if_splits)

lemma length_iterrows: "length (iterrows df) = nrows df"
  by (simp add: iterrows_def)

lemma nth_iterrows:
  "j < nrows df \<Longrightarrow> (iterrows df ! j) name = map_option (\<lambda>xs. xs ! j) (cols df name)"
  by (simp add: iterrows_def)

text \<open>The inner loop: one assignment per row, at consecutive feature indices.\<close>

lemma assign_rows_Inr:
  assumes "assign_rows inds rows (t0, i0) = Inr (t, i1)"
  shows "i1 = i0 + length rows \<and> i1 \<le> max i0 (n_features t0) \<and>
         features t = features t0 \<and> c_labels t = c_labels t0 \<and> r_labels t = r_labels t0 \<and>
         length (writes t) = length (writes t0) + length rows \<and>
         (\<forall>k < length (writes t0). writes t ! k = writes t0 ! k) \<and>
         (\<forall>j < length rows. \<exists>c r v.
             inds CH = Some c \<and> inds ROUND = Some r \<and> (rows ! j) ''intensity'' = Some v \<and>
             c \<in> set (c_labels t0) \<and> r \<in> set (r_labels t0) \<and>
             writes t ! (length (writes t0) + j) = (i0 + j, c, r) \<and>
             (\<forall>c' r'. cell t (i0 + j) c' r' =
                (if c' = c \<and> r' = r then v else cell t0 (i0 + j) c' r'))) \<and>
         (\<forall>i c r. i < i0 \<or> i1 \<le> i \<longrightarrow> cell t i c r = cell t0 i c r)"
  using assms
proof (induction rows arbitrary: t0 i0)
  case Nil
  then show ?case by simp
next
  case (Cons row rows)
  from Cons.prems obtain c r v t' where
    k: "inds CH = Some c" "inds ROUND = Some r" "row ''intensity'' = Some v" and
    ls: "loc_set_fcr t0 i0 c r v = Inr t'" and
    rest: "assign_rows inds rows (t', i0 + 1) = Inr (t, i1)"
    by (auto split: option.splits sum.splits)
  note l = loc_set_fcr_Inr [OF ls]
  have nf: "n_features t' = n_features t0" using l(4) by (simp add: n_features_def)
  note IH = Cons.IH [OF rest, unfolded l(4,5,6) nf]
  from IH have i1: "i1 = i0 + 1 + length rows" by blast
  from IH have bound: "i1 \<le> max (i0 + 1) (n_features t0)" by blast
  from IH have pres: "features t = features t0" "c_labels t = c_labels t0"
    "r_labels t = r_labels t0" by blast+
  from IH have lw: "length (writes t) = length (writes t') + length rows" by blast
  from IH have wk: "\<forall>k < length (writes t'). writes t ! k = writes t' ! k" by blast
  from IH have rows: "\<forall>j < length rows. \<exists>c r v.
             inds CH = Some c \<and> inds ROUND = Some r \<and> (rows ! j) ''intensity'' = Some v \<and>
             c \<in> set (c_labels t0) \<and> r \<in> set (r_labels t0) \<and>
             writes t ! (length (writes t') + j) = (i0 + 1 + j, c, r) \<and>
             (\<forall>c' r'. cell t (i0 + 1 + j) c' r' =
                (if c' = c \<and> r' = r then v else cell t' (i0 + 1 + j) c' r'))" by blast
  from IH have outside: "\<forall>i c r. i < i0 + 1 \<or> i1 \<le> i \<longrightarrow> cell t i c r = cell t' i c r"
    by blast
  have lw': "length (writes t') = length (writes t0) + 1" using l(7) by simp
  have a1: "i1 = i0 + length (row # rows)" using i1 by simp
  have a2: "i1 \<le> max i0 (n_features t0)" using bound l(1) by simp
  have a3: "length (writes t) = length (writes t0) + length (row # rows)"
    using lw lw' by simp
  have a4: "\<forall>k < length (writes t0). writes t ! k = writes t0 ! k"
    using wk lw' l(7) by (simp add: nth_append)
  have a5: "\<exists>c r v.
             inds CH = Some c \<and> inds ROUND = Some r \<and>
             ((row # rows) ! j) ''intensity'' = Some v \<and>
             c \<in> set (c_labels t0) \<and> r \<in> set (r_labels t0) \<and>
             writes t ! (length (writes t0) + j) = (i0 + j, c, r) \<and>
             (\<forall>c' r'. cell t (i0 + j) c' r' =
                (if c' = c \<and> r' = r then v else cell t0 (i0 + j) c' r'))"
    if j: "j < length (row # rows)" for j
  proof (cases j)
    case 0
    have "writes t ! length (writes t0) = (i0, c, r)"
      using wk lw' l(7) by simp
    moreover have "cell t i0 c' r' = (if c' = c \<and> r' = r then v else cell t0 i0 c' r')"
      for c' r'
      using outside l(8) by simp
    ultimately show ?thesis using k l(2,3) 0 by simp
  next
    case (Suc j')
    with j have j': "j' < length rows" by simp
    from rows j' obtain c2 r2 v2 where
      f: "inds CH = Some c2" "inds ROUND = Some r2" "(rows ! j') ''intensity'' = Some v2"
        "c2 \<in> set (c_labels t0)" "r2 \<in> set (r_labels t0)"
        "writes t ! (length (writes t') + j') = (i0 + 1 + j', c2, r2)"
        "\<forall>c' r'. cell t (i0 + 1 + j') c' r' =
                (if c' = c2 \<and> r' = r2 then v2 else cell t' (i0 + 1 + j') c' r')" by blast
    have "cell t' (i0 + 1 + j') c' r' = cell t0 (i0 + 1 + j') c' r'" for c' r'
      using l(8) by simp
    with f show ?thesis using Suc lw' by simp
  qed
  have a6: "\<forall>i c r. i < i0 \<or> i1 \<le> i \<longrightarrow> cell t i c r = cell t0 i c r"
    using outside l(8) i1 by auto
  show ?case using a1 a2 pres a3 a4 a5 a6 by blast
qed

text \<open>The outer loop: the rows of frame \<open>k\<close> follow the rows of the frames before it.\<close>

lemma assign_frames_Inr:
  assumes "assign_frames sas (t0, i0) = Inr (t, i1)"
  shows "i1 = i0 + sum_list (map (nrows \<circ> fst) sas) \<and> i1 \<le> max i0 (n_features t0) \<and>
         features t = features t0 \<and> c_labels t = c_labels t0 \<and> r_labels t = r_labels t0 \<and>
         length (writes t) = length (writes t0) + sum_list (map (nrows \<circ> fst) sas) \<and>
         (\<forall>k < length (writes t0). writes t ! k = writes t0 ! k) \<and>
         (\<forall>k j. k < length sas \<and> j < nrows (fst (sas ! k)) \<longrightarrow>
            (\<exists>c r v.
               snd (sas ! k) CH = Some c \<and> snd (sas ! k) ROUND = Some r \<and>
               (iterrows (fst (sas ! k)) ! j) ''intensity'' = Some v \<and>
               c \<in> set (c_labels t0) \<and> r \<in> set (r_labels t0) \<and>
               writes t ! (length (writes t0) + sum_list (map (nrows \<circ> fst) (take k sas)) + j)
                 = (i0 + sum_list (map (nrows \<circ> fst) (take k sas)) + j, c, r) \<and>
               (\<forall>c' r'. cell t (i0 + sum_list (map (nrows \<circ> fst) (take k sas)) + j) c' r' =
                  (if c' = c \<and> r' = r then v
                   else cell t0 (i0 + sum_list (map (nrows \<circ> fst) (take k sas)) + j) c' r')))) \<and>
         (\<forall>i c r. i < i0 \<or> i1 \<le> i \<longrightarrow> cell t i c r = cell t0 i c r)"
  using assms
proof (induction sas arbitrary: t0 i0)
  case Nil
  then show ?case by simp
next
  case (Cons p sas)
  obtain attrs inds where p: "p = (attrs, inds)" by (cases p)
  let ?n = "nrows attrs"
  let ?off = "\<lambda>k. sum_list (map (nrows \<circ> fst) (take k sas))"
  from Cons.prems obtain t' i' where
    ar: "assign_rows inds (iterrows attrs) (t0, i0) = Inr (t', i')" and
    rest: "assign_frames sas (t', i') = Inr (t, i1)"
    by (auto simp add: p split: sum.splits)
  note R = assign_rows_Inr [OF ar, unfolded length_iterrows]
  from R have i': "i' = i0 + ?n" by blast
  from R have b': "i' \<le> max i0 (n_features t0)" by blast
  from R have pres': "features t' = features t0" "c_labels t' = c_labels t0"
    "r_labels t' = r_labels t0" by blast+
  from R have lw': "length (writes t') = length (writes t0) + ?n" by blast
  from R have wk': "\<forall>k < length (writes t0). writes t' ! k = writes t0 ! k" by blast
  from R have rows': "\<forall>j < ?n. \<exists>c r v.
             inds CH = Some c \<and> inds ROUND = Some r \<and>
             (iterrows attrs ! j) ''intensity'' = Some v \<and>
             c \<in> set (c_labels t0) \<and> r \<in> set (r_labels t0) \<and>
             writes t' ! (length (writes t0) + j) = (i0 + j, c, r) \<and>
             (\<forall>c' r'. cell t' (i0 + j) c' r' =
                (if c' = c \<and> r' = r then v else cell t0 (i0 + j) c' r'))" by blast
  from R have out': "\<forall>i c r. i < i0 \<or> i' \<le> i \<longrightarrow> cell t' i c r = cell t0 i c r" by blast
  have nf: "n_features t' = n_features t0" using pres'(1) by (simp add: n_features_def)
  note IH = Cons.IH [OF rest, unfolded pres' nf]
  from IH have i1: "i1 = i' + sum_list (map (nrows \<circ> fst) sas)" by blast
  from IH have b1: "i1 \<le> max i' (n_features t0)" by blast
  from IH have pres: "features t = features t0" "c_labels t = c_labels t0"
    "r_labels t = r_labels t0" by blast+
  from IH have lw: "length (writes t) = length (writes t') + sum_list (map (nrows \<circ> fst) sas)"
    by blast
  from IH have wk: "\<forall>k < length (writes t'). writes t ! k = writes t' ! k" by blast
  from IH have frames: "\<forall>k j. k < length sas \<and> j < nrows (fst (sas ! k)) \<longrightarrow>
            (\<exists>c r v.
               snd (sas ! k) CH = Some c \<and> snd (sas ! k) ROUND = Some r \<and>
               (iterrows (fst (sas ! k)) ! j) ''intensity'' = Some v \<and>
               c \<in> set (c_labels t0) \<and> r \<in> set (r_labels t0) \<and>
               writes t ! (length (writes t') + ?off k + j) = (i' + ?off k + j, c, r) \<and>
               (\<forall>c' r'. cell t (i' + ?off k + j) c' r' =
                  (if c' = c \<and> r' = r then v else cell t' (i' + ?off k + j) c' r')))"
    by blast
  from IH have out: "\<forall>i c r. i < i' \<or> i1 \<le> i \<longrightarrow> cell t i c r = cell t' i c r" by blast
  have a1: "i1 = i0 + sum_list (map (nrows \<circ> fst) (p # sas))"
    using i1 i' by (simp add: p)
  have a2: "i1 \<le> max i0 (n_features t0)" using b1 b' by simp
  have a3: "length (writes t) = length (writes t0) + sum_list (map (nrows \<circ> fst) (p # sas))"
    using lw lw' by (simp add: p)
  have a4: "\<forall>k < length (writes t0). writes t ! k = writes t0 ! k"
    using wk wk' lw' by simp
  have a5: "\<exists>c r v.
       snd ((p # sas) ! k) CH = Some c \<and> snd ((p # sas) ! k) ROUND = Some r \<and>
       (iterrows (fst ((p # sas) ! k)) ! j) ''intensity'' = Some v \<and>
       c \<in> set (c_labels t0) \<and> r \<in> set (r_labels t0) \<and>
       writes t ! (length (writes t0) + sum_list (map (nrows \<circ> fst) (take k (p # sas))) + j)
         = (i0 + sum_list (map (nrows \<circ> fst) (take k (p # sas))) + j, c, r) \<and>
       (\<forall>c' r'. cell t (i0 + sum_list (map (nrows \<circ> fst) (take k (p # sas))) + j) c' r' =
          (if c' = c \<and> r' = r then v
           else cell t0 (i0 + sum_list (map (nrows \<circ> fst) (take k (p # sas))) + j) c' r'))"
    if kj: "k < length (p # sas) \<and> j < nrows (fst ((p # sas) ! k))" for k j
  proof (cases k)
    case 0
    with kj have j: "j < ?n" by (simp add: p)
    from rows' j obtain c r v where
      f: "inds CH = Some c" "inds ROUND = Some r" "(iterrows attrs ! j) ''intensity'' = Some v"
        "c \<in> set (c_labels t0)" "r \<in> set (r_labels t0)"
        "writes t' ! (length (writes t0) + j) = (i0 + j, c, r)"
        "\<forall>c' r'. cell t' (i0 + j) c' r' =
                (if c' = c \<and> r' = r then v else cell t0 (i0 + j) c' r')" by blast
    have w: "writes t ! (length (writes t0) + j) = (i0 + j, c, r)"
      using wk lw' j f(6) by simp
    have ce: "cell t (i0 + j) c' r' = cell t' (i0 + j) c' r'" for c' r'
      using out i' j by simp
    show ?thesis using f w ce 0 by (simp add: p)
  next
    case (Suc k')
    with kj have k': "k' < length sas \<and> j < nrows (fst (sas ! k'))" by simp
    from frames k' obtain c r v where
      f: "snd (sas ! k') CH = Some c" "snd (sas ! k') ROUND = Some r"
        "(iterrows (fst (sas ! k')) ! j) ''intensity'' = Some v"
        "c \<in> set (c_labels t0)" "r \<in> set (r_labels t0)"
        "writes t ! (length (writes t') + ?off k' + j) = (i' + ?off k' + j, c, r)"
        "\<forall>c' r'. cell t (i' + ?off k' + j) c' r' =
                  (if c' = c \<and> r' = r then v else cell t' (i' + ?off k' + j) c' r')"
      by blast
    have e1: "length (writes t0) + sum_list (map (nrows \<circ> fst) (take k (p # sas))) + j =
              length (writes t') + ?off k' + j"
      using lw' by (simp add: Suc p)
    have e2: "i0 + sum_list (map (nrows \<circ> fst) (take k (p # sas))) + j = i' + ?off k' + j"
      using i' by (simp add: Suc p)
    have ce: "cell t' (i' + ?off k' + j) c' r' = cell t0 (i' + ?off k' + j) c' r'" for c' r'
      using out' by simp
    show ?thesis unfolding e1 e2 using f ce by (simp add: Suc)
  qed
  have a6: "\<forall>i c r. i < i0 \<or> i1 \<le> i \<longrightarrow> cell t i c r = cell t0 i c r"
    using out out' i' i1 by auto
  show ?case using a1 a2 pres a3 a4 a5 a6 by blast
qed

lemma pd_concat_Inr:
  assumes "pd_concat dfs = Inr all_spots"
  shows "dfs \<noteq> []" and "nrows all_spots = sum_list (map nrows dfs)"
  using assms by (auto simp add: pd_concat_def split: if_splits)

lemma df_drop_Inr:
  assumes "df_drop df names = Inr df'"
  shows "nrows df' = nrows df" and "\<forall>n \<in> set names. cols df n \<noteq> None \<and> cols df' n = None"
  using assms by (auto simp add: df_drop_def list_all_iff split: if_splits)

text \<open>A run that returns went through every stage.\<close>

lemma concatenate_stages:
  assumes "concatenate_spot_attributes_to_intensities sas = Inr t"
  shows "\<exists>chs rounds all_spots fc i.
           frame_indices CH sas = Inr chs \<and> frame_indices ROUND sas = Inr rounds \<and>
           pd_concat (map fst sas) = Inr all_spots \<and>
           df_drop all_spots [''spot_id'', ''intensity''] = Inr fc \<and>
           assign_frames sas
             (IntensityTable_zeros fc (sort (remdups rounds)) (sort (remdups chs)), 0)
             = Inr (t, i)"
  using assms
  by (auto simp add: concatenate_spot_attributes_to_intensities_def Let_def
      split: sum.splits prod.splits)

lemma rows_before_frame:
  assumes "k < length sas" and "j < nrows (fst (sas ! k))"
  shows "sum_list (map (nrows \<circ> fst) (take k sas)) + j < sum_list (map (nrows \<circ> fst) sas)"
proof -
  have "sas = take k sas @ sas ! k # drop (Suc k) sas"
    using assms(1) by (rule id_take_nth_drop)
  then have "sum_list (map (nrows \<circ> fst) sas) =
      sum_list (map (nrows \<circ> fst) (take k sas)) + nrows (fst (sas ! k)) +
      sum_list (map (nrows \<circ> fst) (drop (Suc k) sas))"
    by (metis (no_types, lifting) add.assoc comp_apply list.simps(9) map_append sum_list.Cons
        sum_list.append)
  with assms(2) show ?thesis by simp
qed

lemma concatenate_n_features:
  assumes "concatenate_spot_attributes_to_intensities sas = Inr t"
  shows "n_features t = sum_list (map (nrows \<circ> fst) sas)"
proof -
  from concatenate_stages [OF assms] obtain chs rounds all_spots fc i where
    pc: "pd_concat (map fst sas) = Inr all_spots" and
    dd: "df_drop all_spots [''spot_id'', ''intensity''] = Inr fc" and
    af: "assign_frames sas
           (IntensityTable_zeros fc (sort (remdups rounds)) (sort (remdups chs)), 0) = Inr (t, i)"
    by blast
  from assign_frames_Inr [OF af] have "features t = fc"
    by (simp add: IntensityTable_zeros_def)
  then show ?thesis
    using df_drop_Inr(1) [OF dd] pd_concat_Inr(2) [OF pc]
    by (simp add: n_features_def comp_def)
qed

subsection \<open>When the merge returns\<close>

lemma frame_indices_succeeds:
  "\<forall>(sa, inds) \<in> set sas. inds ax \<noteq> None \<Longrightarrow> \<exists>vs. frame_indices ax sas = Inr vs"
  by (induction sas) auto

lemma assign_rows_succeeds:
  assumes "inds CH = Some c" and "inds ROUND = Some r"
    and "c \<in> set (c_labels t0)" and "r \<in> set (r_labels t0)"
    and "\<forall>row \<in> set rows. row ''intensity'' \<noteq> None"
    and "i0 + length rows \<le> n_features t0"
  shows "\<exists>t i1. assign_rows inds rows (t0, i0) = Inr (t, i1)"
  using assms(3-6)
proof (induction rows arbitrary: t0 i0)
  case Nil
  then show ?case by simp
next
  case (Cons row rows)
  from Cons.prems(3) obtain v where v: "row ''intensity'' = Some v" by auto
  have "i0 < n_features t0" using Cons.prems(4) by simp
  then obtain t' where ls: "loc_set_fcr t0 i0 c r v = Inr t'"
    using Cons.prems(1,2) by (simp add: loc_set_fcr_def)
  note l = loc_set_fcr_Inr [OF ls]
  have "\<exists>t i1. assign_rows inds rows (t', i0 + 1) = Inr (t, i1)"
    using Cons.prems l(4,5,6) by (intro Cons.IH) (simp_all add: n_features_def)
  then show ?case using assms(1,2) v ls by simp
qed

lemma assign_frames_succeeds:
  assumes "\<forall>(sa, inds) \<in> set sas.
             (\<exists>c r. inds CH = Some c \<and> inds ROUND = Some r \<and>
                    c \<in> set (c_labels t0) \<and> r \<in> set (r_labels t0)) \<and>
             cols sa ''intensity'' \<noteq> None"
    and "i0 + sum_list (map (nrows \<circ> fst) sas) \<le> n_features t0"
  shows "\<exists>t i1. assign_frames sas (t0, i0) = Inr (t, i1)"
  using assms
proof (induction sas arbitrary: t0 i0)
  case Nil
  then show ?case by simp
next
  case (Cons p sas)
  obtain attrs inds where p: "p = (attrs, inds)" by (cases p)
  from Cons.prems(1) obtain c r where
    key: "inds CH = Some c" "inds ROUND = Some r"
      "c \<in> set (c_labels t0)" "r \<in> set (r_labels t0)"
    and int: "cols attrs ''intensity'' \<noteq> None"
    by (auto simp add: p)
  have rows: "\<forall>row \<in> set (iterrows attrs). row ''intensity'' \<noteq> None"
    using int by (auto simp add: iterrows_def)
  have le: "i0 + length (iterrows attrs) \<le> n_features t0"
    using Cons.prems(2) by (simp add: p length_iterrows)
  from assign_rows_succeeds [OF key rows le] obtain t' i' where
    ar: "assign_rows inds (iterrows attrs) (t0, i0) = Inr (t', i')" by blast
  note R = assign_rows_Inr [OF ar, unfolded length_iterrows]
  from R have i': "i' = i0 + nrows attrs" by blast
  from R have pres: "features t' = features t0" "c_labels t' = c_labels t0"
    "r_labels t' = r_labels t0" by blast+
  have pre: "\<forall>(sa, inds) \<in> set sas.
             (\<exists>c r. inds CH = Some c \<and> inds ROUND = Some r \<and>
                    c \<in> set (c_labels t') \<and> r \<in> set (r_labels t')) \<and>
             cols sa ''intensity'' \<noteq> None"
    using Cons.prems(1) unfolding pres by simp
  have le': "i' + sum_list (map (nrows \<circ> fst) sas) \<le> n_features t'"
    using Cons.prems(2) i' pres(1) by (simp add: p n_features_def comp_def)
  from Cons.IH [OF pre le'] obtain t i1 where
    "assign_frames sas (t', i') = Inr (t, i1)" by blast
  then show ?case by (simp add: p ar)
qed

text \<open>
  The merge returns for a non-empty list of frames that all carry their channel and
  round and the columns \<open>spot_id\<close> and \<open>intensity\<close>.
\<close>

lemma concatenate_returns:
  assumes ne: "sas \<noteq> []"
    and fr: "\<forall>(sa, inds) \<in> set sas.
               inds CH \<noteq> None \<and> inds ROUND \<noteq> None \<and>
               cols sa ''intensity'' \<noteq> None \<and> cols sa ''spot_id'' \<noteq> None"
  shows "\<exists>t. concatenate_spot_attributes_to_intensities sas = Inr t"
proof -
  from fr have "\<forall>(sa, inds) \<in> set sas. inds CH \<noteq> None" by auto
  from frame_indices_succeeds [OF this] obtain chs where
    ch: "frame_indices CH sas = Inr chs" by blast
  from fr have "\<forall>(sa, inds) \<in> set sas. inds ROUND \<noteq> None" by auto
  from frame_indices_succeeds [OF this] obtain rounds where
    rd: "frame_indices ROUND sas = Inr rounds" by blast
  obtain all_spots where pc: "pd_concat (map fst sas) = Inr all_spots"
    using ne by (simp add: pd_concat_def)
  obtain sa0 inds0 where p: "(sa0, inds0) \<in> set sas" using ne by (cases sas) auto
  with fr have "cols sa0 ''intensity'' \<noteq> None" "cols sa0 ''spot_id'' \<noteq> None" by auto
  moreover have "sa0 \<in> set (map fst sas)" using p by force
  ultimately have ex: "list_ex (\<lambda>df. cols df ''intensity'' \<noteq> None) (map fst sas)"
    "list_ex (\<lambda>df. cols df ''spot_id'' \<noteq> None) (map fst sas)"
    unfolding list_ex_iff by blast+
  have "cols all_spots ''intensity'' \<noteq> None" "cols all_spots ''spot_id'' \<noteq> None"
    using pc ne ex by (auto simp add: pd_concat_def)
  then obtain fc where dd: "df_drop all_spots [''spot_id'', ''intensity''] = Inr fc"
    by (simp add: df_drop_def)
  let ?t0 = "IntensityTable_zeros fc (sort (remdups rounds)) (sort (remdups chs))"
  have pre: "\<forall>(sa, inds) \<in> set sas.
             (\<exists>c r. inds CH = Some c \<and> inds ROUND = Some r \<and>
                    c \<in> set (c_labels ?t0) \<and> r \<in> set (r_labels ?t0)) \<and>
             cols sa ''intensity'' \<noteq> None"
    using fr frame_indices_Inr(2) [OF ch] frame_indices_Inr(2) [OF rd]
    by (fastforce simp add: IntensityTable_zeros_def)
  have le: "0 + sum_list (map (nrows \<circ> fst) sas) \<le> n_features ?t0"
    using df_drop_Inr(1) [OF dd] pd_concat_Inr(2) [OF pc]
    by (simp add: n_features_def IntensityTable_zeros_def comp_def)
  from assign_frames_succeeds [OF pre le] obtain t i1 where
    af: "assign_frames sas (?t0, 0) = Inr (t, i1)" by blast
  show ?thesis
    by (simp add: concatenate_spot_attributes_to_intensities_def ch rd pc dd af
        Let_def)
qed

subsection \<open>The example merge\<close>

lemma ex_frames_run: "\<exists>t. concatenate_spot_attributes_to_intensities ex_frames = Inr t"
  by (simp add: concatenate_spot_attributes_to_intensities_def ex_frames_def ex_found_def
      pd_concat_def df_drop_def iterrows_def loc_set_fcr_def IntensityTable_zeros_def
      n_features_def Let_def)

lemma ex_found_ok: "df_ok (ex_found v)"
  by (simp add: df_ok_def ex_found_def)

lemma ex_frames_channels:
  "{c. \<exists>sa inds. (sa, inds) \<in> set ex_frames \<and> inds CH = Some c} = {0, 1}"
proof -
  have "(ex_found 9, [CH \<mapsto> 0, ROUND \<mapsto> 0]) \<in> set ex_frames"
    "(ex_found 4, [CH \<mapsto> 1, ROUND \<mapsto> 0]) \<in> set ex_frames"
    by (simp_all add: ex_frames_def)
  then have "0 \<in> {c. \<exists>sa inds. (sa, inds) \<in> set ex_frames \<and> inds CH = Some c}"
    "1 \<in> {c. \<exists>sa inds. (sa, inds) \<in> set ex_frames \<and> inds CH = Some c}"
    by force+
  moreover have "{c. \<exists>sa inds. (sa, inds) \<in> set ex_frames \<and> inds CH = Some c} \<subseteq> {0, 1}"
    by (auto simp add: ex_frames_def)
  ultimately show ?thesis by blast
qed

lemma ex_frames_rounds:
  "{r. \<exists>sa inds. (sa, inds) \<in> set ex_frames \<and> inds ROUND = Some r} = {0}"
proof -
  have "(ex_found 9, [CH \<mapsto> 0, ROUND \<mapsto> 0]) \<in> set ex_frames"
    by (simp add: ex_frames_def)
  then have "0 \<in> {r. \<exists>sa inds. (sa, inds) \<in> set ex_frames \<and> inds ROUND = Some r}"
    by force
  moreover have "{r. \<exists>sa inds. (sa, inds) \<in> set ex_frames \<and> inds ROUND = Some r} \<subseteq> {0}"
    by (auto simp add: ex_frames_def)
  ultimately show ?thesis by blast
qed

subsection \<open>Columns that a call needs and leaves\<close>

lemma low_dim_axes:
  assumes "length (shape img) < 3"
  shows "\<forall>(v, n) \<in> set (zip [''z'', ''y'', ''x''] (shape img)). v \<in> {''z'', ''y''}"
proof (cases "shape img")
  case Nil
  then show ?thesis by simp
next
  case (Cons a as)
  note outer = this
  show ?thesis
  proof (cases as)
    case Nil
    with outer show ?thesis by simp
  next
    case (Cons b bs)
    with outer assms have "bs = []" by simp
    with outer Cons show ?thesis by simp
  qed
qed

lemma box_table_other_cols:
  assumes "box_table img spots g = Inr spots'"
    and "w \<notin> set [''z_min'', ''z_max'', ''y_min'', ''y_max'', ''x_min'', ''x_max'']"
  shows "cols spots' w = cols spots w"
proof -
  from assms(1) obtain rs where
    bc: "box_columns (zip [''z'', ''y'', ''x''] (shape img)) (map (spot_radius g) rs) spots
              = Inr spots'"
    by (auto simp add: box_table_def getcol_def split: option.splits)
  have "\<forall>(v, n) \<in> set (zip [''z'', ''y'', ''x''] (shape img)).
          w \<noteq> v @ ''_min'' \<and> w \<noteq> v @ ''_max''"
    using assms(2) by (auto dest!: set_zip_leftD)
  with box_columns_frame [OF bc] show ?thesis by blast
qed

lemma box_table_low_dim_x:
  assumes "box_table img spots g = Inr spots'" and "length (shape img) < 3"
  shows "cols spots' ''x_min'' = cols spots ''x_min''"
    and "cols spots' ''x_max'' = cols spots ''x_max''"
proof -
  from assms(1) obtain rs where
    bc: "box_columns (zip [''z'', ''y'', ''x''] (shape img)) (map (spot_radius g) rs) spots
              = Inr spots'"
    by (auto simp add: box_table_def getcol_def split: option.splits)
  from low_dim_axes [OF assms(2)]
  have "\<forall>(v, n) \<in> set (zip [''z'', ''y'', ''x''] (shape img)).
          ''x_min'' \<noteq> v @ ''_min'' \<and> ''x_min'' \<noteq> v @ ''_max''"
    and "\<forall>(v, n) \<in> set (zip [''z'', ''y'', ''x''] (shape img)).
          ''x_max'' \<noteq> v @ ''_min'' \<and> ''x_max'' \<noteq> v @ ''_max''"
    by auto
  with box_columns_frame [OF bc]
  show "cols spots' ''x_min'' = cols spots ''x_min''"
    and "cols spots' ''x_max'' = cols spots ''x_max''" by blast+
qed

text \<open>
  An image of fewer than three axes leaves the columns \<open>x_min\<close> and \<open>x_max\<close> alone,
  so the selection of line 61 raises KeyError when the table does not have them.
\<close>

lemma measure_low_dim_fresh:
  assumes "length (shape img) < 3"
    and "cols spots ''x_min'' = None \<or> cols spots ''x_max'' = None"
  shows "\<exists>e. measure_spot_intensity img spots measurement_function g = Inl e"
proof (cases "measure_spot_intensity img spots measurement_function g")
  case (Inl e)
  then show ?thesis by blast
next
  case (Inr x)
  obtain res spots' where x: "x = (res, spots')" by (cases x)
  from measure_spot_intensity_stages [OF Inr [unfolded x]] obtain rows where
    bt: "box_table img spots g = Inr spots'" and br: "box_rows spots' = Inr rows" by blast
  from box_rows_Inr [OF br] have "cols spots' ''x_min'' \<noteq> None" "cols spots' ''x_max'' \<noteq> None"
    by auto
  with box_table_low_dim_x [OF bt assms(1)] assms(2) show ?thesis by auto
qed

text \<open>Without a z column the first pass of the loop of lines 57-60 raises KeyError.\<close>

lemma measure_no_z:
  assumes "cols spots ''z'' = None" and "shape img \<noteq> []"
  shows "measure_spot_intensity img spots measurement_function g = Inl KeyError"
proof -
  from assms(2) obtain n ns where sh: "shape img = n # ns" by (cases "shape img") auto
  have "box_table img spots g = Inl KeyError"
    using assms(1) by (simp add: box_table_def getcol_def sh split: option.splits)
  then show ?thesis by (simp add: measure_spot_intensity_def)
qed

lemma measure_leaves_columns:
  assumes "measure_spot_intensity img spots measurement_function g = Inr (res, spots')"
  shows "list_all (\<lambda>name. cols spots' name \<noteq> None)
           [''z_min'', ''z_max'', ''y_min'', ''y_max'', ''x_min'', ''x_max'']"
    and "nrows spots' = nrows spots"
    and "w \<notin> set [''z_min'', ''z_max'', ''y_min'', ''y_max'', ''x_min'', ''x_max'']
           \<Longrightarrow> cols spots' w = cols spots w"
proof -
  from measure_spot_intensity_stages [OF assms] obtain rows where
    bt: "box_table img spots g = Inr spots'" and br: "box_rows spots' = Inr rows" by blast
  from box_rows_Inr [OF br]
  show "list_all (\<lambda>name. cols spots' name \<noteq> None)
           [''z_min'', ''z_max'', ''y_min'', ''y_max'', ''x_min'', ''x_max'']"
    by auto
  show "nrows spots' = nrows spots" by (rule box_table_frame(1) [OF bt])
  show "cols spots' w = cols spots w"
    if "w \<notin> set [''z_min'', ''z_max'', ''y_min'', ''y_max'', ''x_min'', ''x_max'']"
    by (rule box_table_other_cols [OF bt that])
qed

text \<open>
  A table without rows that has the columns read on a 2-D image goes through the call.
\<close>

lemma measure_two_axes_no_rows:
  assumes sh: "length (shape img) = 2" and n: "nrows spots = 0" and ok: "df_ok spots"
    and c: "cols spots ''z'' \<noteq> None" "cols spots ''y'' \<noteq> None"
      "cols spots SPOT_RADIUS \<noteq> None"
      "cols spots ''x_min'' \<noteq> None" "cols spots ''x_max'' \<noteq> None"
  shows "\<exists>spots'. measure_spot_intensity img spots measurement_function g = Inr ([], spots')"
proof -
  from sh obtain a b where shape: "shape img = [a, b]"
    by (auto simp add: length_Suc_conv numeral_2_eq_2)
  have empty: "xs = []" if "cols spots name = Some xs" for name xs
    using df_ok_length [OF ok that] n by simp
  from c obtain zs ys rs x0 x1 where
    "cols spots ''z'' = Some zs" "cols spots ''y'' = Some ys" "cols spots SPOT_RADIUS = Some rs"
    "cols spots ''x_min'' = Some x0" "cols spots ''x_max'' = Some x1" by auto
  with empty have cols: "cols spots ''z'' = Some []" "cols spots ''y'' = Some []"
    "cols spots SPOT_RADIUS = Some []" "cols spots ''x_min'' = Some []"
    "cols spots ''x_max'' = Some []" by auto
  have bt: "box_table img spots g =
      Inr (spots\<lparr>cols := (cols spots)(''z_min'' \<mapsto> [], ''z_max'' \<mapsto> [],
                                       ''y_min'' \<mapsto> [], ''y_max'' \<mapsto> [])\<rparr>)"
    using cols by (simp add: box_table_def getcol_def setcol_def shape)
  show ?thesis
    using cols by (simp add: measure_spot_intensity_def bt box_rows_def)
qed

lemma ex_run_2d:
  "measure_spot_intensity ex_image_2d (ex_spot 1 1 1 (3/2)) corner_value False = Inl KeyError"
  by (simp add: model_defs ex_image_2d_def ex_spot_def)

lemma ex_run_2d_no_rows:
  "length (shape ex_image_2d) = 2 \<and> nrows ex_no_spots_boxed = 0 \<and> df_ok ex_no_spots_boxed \<and>
   cols ex_no_spots_boxed ''z'' \<noteq> None \<and> cols ex_no_spots_boxed ''y'' \<noteq> None \<and>
   cols ex_no_spots_boxed SPOT_RADIUS \<noteq> None \<and>
   cols ex_no_spots_boxed ''x_min'' \<noteq> None \<and> cols ex_no_spots_boxed ''x_max'' \<noteq> None"
  by (simp add: ex_image_2d_def ex_no_spots_boxed_def df_ok_def SPOT_RADIUS_def)

section \<open>Properties of detect_spots\<close>

lemma fill_table_labels:
  assumes "fill_table ops st mf g indices m0 = Inr m"
  shows "c_labels (table m) = c_labels (table m0) \<and> r_labels (table m) = r_labels (table m0) \<and>
         features (table m) = features (table m0) \<and> frames_read m = frames_read m0 @ indices"
  using assms
proof (induction indices arbitrary: m0)
  case Nil
  then show ?case by simp
next
  case (Cons p indices)
  obtain c r where p: "p = (c, r)" by (cases p)
  from fill_table_step [OF Cons.prems [unfolded p]] obtain blob spots' t where
    ls: "loc_set_cr (table m0) c r blob = Inr t" and
    rest: "fill_table ops st mf g indices
             \<lparr>table = t, spots_after = spots', frames_read = frames_read m0 @ [(c, r)]\<rparr> = Inr m"
    by blast
  from Cons.IH [OF rest] loc_set_cr_Inr(4,5,6) [OF ls] show ?case by (simp add: p)
qed

lemma measure_spot_intensities_labels:
  assumes "measure_spot_intensities ops st sa mf g = Inr m"
  shows "c_labels (table m) = axis_labels ops st CH"
    and "r_labels (table m) = axis_labels ops st ROUND"
    and "n_features (table m) = nrows sa"
    and "frames_read m =
           (if nrows sa = 0 then []
            else List.product (axis_labels ops st CH) (axis_labels ops st ROUND))"
proof -
  let ?m0 = "\<lparr>table = IntensityTable_zeros (as_features sa) (axis_labels ops st ROUND)
                          (axis_labels ops st CH),
              spots_after = sa, frames_read = []\<rparr>"
  have "c_labels (table m) = axis_labels ops st CH \<and>
        r_labels (table m) = axis_labels ops st ROUND \<and>
        n_features (table m) = nrows sa \<and>
        frames_read m =
           (if nrows sa = 0 then []
            else List.product (axis_labels ops st CH) (axis_labels ops st ROUND))"
  proof (cases "nrows sa = 0")
    case True
    with assms have "m = ?m0" by (simp add: measure_spot_intensities_cases)
    with True show ?thesis
      by (simp add: IntensityTable_zeros_def as_features_def n_features_def)
  next
    case False
    with assms have
      "fill_table ops st mf g (List.product (axis_labels ops st CH) (axis_labels ops st ROUND))
         ?m0 = Inr m"
      by (simp add: measure_spot_intensities_cases)
    from fill_table_labels [OF this] False show ?thesis
      by (simp add: IntensityTable_zeros_def as_features_def n_features_def)
  qed
  then show "c_labels (table m) = axis_labels ops st CH"
    and "r_labels (table m) = axis_labels ops st ROUND"
    and "n_features (table m) = nrows sa"
    and "frames_read m =
           (if nrows sa = 0 then []
            else List.product (axis_labels ops st CH) (axis_labels ops st ROUND))"
    by simp_all
qed

lemma count_get_slice:
  "count_list (map (\<lambda>(c, r). Get_slice c r) frames) Spot_finding = 0"
  "count_list (map (\<lambda>(c, r). Get_slice c r) frames) Transfer_coords = 0"
  "count_list (map (\<lambda>(c, r). Get_slice c r) frames) Stack_transform = 0"
  by (induction frames) auto

text \<open>The two branches of \<open>detect_spots\<close>.\<close>

lemma detect_spots_reference:
  "detect_spots ops data_stack finder kwargs (Some ref) axes mf g n_processes =
     (case finder (case axes of
                     Some ax \<Rightarrow> squeezed_numpy ops (max_proj ops ref ax) ax
                   | None \<Rightarrow> xarray ops ref)
                  (case kwargs of None \<Rightarrow> Map.empty | Some kw \<Rightarrow> kw) of
        Inl e \<Rightarrow> Inl e
      | Inr spots \<Rightarrow>
          (case measure_spot_intensities ops data_stack spots mf g of
             Inl e \<Rightarrow> Inl e
           | Inr m \<Rightarrow>
               Inr (transfer_physical_coords ops data_stack (table m),
                    (case axes of Some ax \<Rightarrow> [Max_proj ax] | None \<Rightarrow> [])
                    @ [Spot_finding] @ map (\<lambda>(c, r). Get_slice c r) (frames_read m)
                    @ [Transfer_coords])))"
  by (cases axes) (simp_all add: detect_spots_def Let_def split: sum.splits)

lemma detect_spots_independent:
  "detect_spots ops data_stack finder kwargs None axes mf g n_processes =
     (case transform ops data_stack
             (\<lambda>img. finder img (case kwargs of None \<Rightarrow> Map.empty | Some kw \<Rightarrow> kw))
             {ROUND, CH} n_processes of
        Inl e \<Rightarrow> Inl e
      | Inr frames \<Rightarrow>
          (case concatenate_spot_attributes_to_intensities frames of
             Inl e \<Rightarrow> Inl e
           | Inr t \<Rightarrow>
               Inr (transfer_physical_coords ops data_stack t,
                    [Stack_transform, Transfer_coords])))"
  by (simp add: detect_spots_def Let_def)

subsection \<open>The example runs of detect_spots\<close>

lemma ex_transform:
  "transform ex_ops () (\<lambda>img. ex_finder img Map.empty) {ROUND, CH} None = Inr ex_frames"
  by (simp add: ex_ops_def ex_finder_def ex_frames_def ex_image_def ex_image2_def)

lemma ex_detect_reference:
  "\<exists>t tr. detect_spots ex_ops () ex_finder_ref None (Some ()) None corner_value False None
            = Inr (t, tr)"
proof -
  from ex_stack_run obtain m where
    "measure_spot_intensities ex_ops () (ex_spot 1 1 1 (3/2)) corner_value False = Inr m"
    by blast
  then show ?thesis by (simp add: detect_spots_reference ex_finder_ref_def)
qed

lemma ex_detect_independent:
  "\<exists>t tr. detect_spots ex_ops () ex_finder None None None corner_value False None = Inr (t, tr)"
proof -
  from ex_frames_run obtain t where
    "concatenate_spot_attributes_to_intensities ex_frames = Inr t" by blast
  then show ?thesis by (simp add: detect_spots_independent ex_transform)
qed

lemma ex_ops_transfer:
  "transfer_physical_coords ex_ops s t =
     t\<lparr>features := setcol (features t) ''xc'' (replicate (nrows (features t)) (Some 0))\<rparr>"
  by (simp add: ex_ops_def)

section \<open>Claims about the bounding-box sampler\<close>










section \<open>Claims about the tensor assembler\<close>

text \<open>
  C5. For a spot table of zero rows, \<open>measure_spot_intensities\<close> returns at once: the
  result is a table of zero features, labelled with the channels and rounds of the
  stack, no frame has been retrieved from the stack and no cell has been assigned. The
  call does not raise, whatever the stack's methods would return.
\<close>

theorem no_spots_no_frame_read:
  assumes "nrows spot_attributes = 0"
  shows "\<exists>m. measure_spot_intensities ops data_image spot_attributes measurement_function g = Inr m \<and>
           n_features (table m) = 0 \<and> frames_read m = [] \<and> writes (table m) = [] \<and>
           c_labels (table m) = axis_labels ops data_image CH \<and>
           r_labels (table m) = axis_labels ops data_image ROUND \<and>
           spots_after m = spot_attributes"
  using assms
  by (simp add: measure_spot_intensities_cases n_features_def IntensityTable_zeros_def
      as_features_def)

theorem no_spots_no_frame_read_witness:
  "\<exists>m. measure_spot_intensities ex_ops () ex_no_spots corner_value False = Inr m \<and>
     n_features (table m) = 0 \<and> frames_read m = [] \<and> writes (table m) = [] \<and>
     c_labels (table m) = [0, 1] \<and> r_labels (table m) = [0]"
proof -
  have "nrows ex_no_spots = 0" by (simp add: ex_no_spots_def)
  from no_spots_no_frame_read [OF this, of ex_ops "()" corner_value False]
  show ?thesis by (auto simp add: ex_ops_labels)
qed



section \<open>Claims about the per-frame merge\<close>

text \<open>
  C7. The table that \<open>concatenate_spot_attributes_to_intensities\<close> returns has as its
  channel labels the channel values of the frames, each once and in ascending order,
  as its round labels the round values of the frames, each once and in ascending order,
  and as many features as the frames have rows in total.
\<close>

theorem concatenate_axes:
  assumes "concatenate_spot_attributes_to_intensities sas = Inr t"
  shows "sorted (c_labels t) \<and> distinct (c_labels t) \<and>
         set (c_labels t) = {c. \<exists>sa inds. (sa, inds) \<in> set sas \<and> inds CH = Some c} \<and>
         sorted (r_labels t) \<and> distinct (r_labels t) \<and>
         set (r_labels t) = {r. \<exists>sa inds. (sa, inds) \<in> set sas \<and> inds ROUND = Some r} \<and>
         n_features t = sum_list (map (nrows \<circ> fst) sas)"
proof -
  from concatenate_stages [OF assms] obtain chs rounds all_spots fc i where
    ch: "frame_indices CH sas = Inr chs" and rd: "frame_indices ROUND sas = Inr rounds" and
    pc: "pd_concat (map fst sas) = Inr all_spots" and
    dd: "df_drop all_spots [''spot_id'', ''intensity''] = Inr fc" and
    af: "assign_frames sas
           (IntensityTable_zeros fc (sort (remdups rounds)) (sort (remdups chs)), 0) = Inr (t, i)"
    by blast
  note A = assign_frames_Inr [OF af]
  from A have c: "c_labels t = sort (remdups chs)"
    by (simp add: IntensityTable_zeros_def)
  from A have r: "r_labels t = sort (remdups rounds)"
    by (simp add: IntensityTable_zeros_def)
  from A have f: "features t = fc"
    by (simp add: IntensityTable_zeros_def)
  have n: "n_features t = sum_list (map (nrows \<circ> fst) sas)"
    using f df_drop_Inr(1) [OF dd] pd_concat_Inr(2) [OF pc]
    by (simp add: n_features_def comp_def)
  show ?thesis
    unfolding c r using frame_indices_Inr(2) [OF ch] frame_indices_Inr(2) [OF rd] n
    by simp
qed

theorem concatenate_axes_witness:
  "\<exists>t. concatenate_spot_attributes_to_intensities ex_frames = Inr t \<and>
     c_labels t = [0, 1] \<and> r_labels t = [0] \<and> n_features t = 2"
proof -
  from ex_frames_run obtain t where
    run: "concatenate_spot_attributes_to_intensities ex_frames = Inr t" by blast
  note inst = concatenate_axes [OF run, unfolded ex_frames_channels ex_frames_rounds]
  from inst have "sorted (c_labels t)" "distinct (c_labels t)" "set (c_labels t) = set [0, 1]"
    by simp_all
  then have c: "c_labels t = [0, 1]"
    by (intro sorted_distinct_set_unique) simp_all
  from inst have "sorted (r_labels t)" "distinct (r_labels t)" "set (r_labels t) = set [0]"
    by simp_all
  then have r: "r_labels t = [0]"
    by (intro sorted_distinct_set_unique) simp_all
  from inst have n: "n_features t = 2"
    by (simp add: ex_frames_def ex_found_def)
  from run c r n show ?thesis by blast
qed

text \<open>
  C8. In the table that \<open>concatenate_spot_attributes_to_intensities\<close> returns, row \<open>j\<close>
  of frame \<open>k\<close> is the feature at position (rows of the frames before \<open>k\<close>) + \<open>j\<close>:
  features follow the order of concatenation, one per row, and nothing merges two rows.
  The feature's intensity stands in the cell of its frame's channel and round, every
  other cell of the feature is zero, and the run has made one assignment per feature,
  the one to that cell.
\<close>

theorem concatenate_cells:
  assumes run: "concatenate_spot_attributes_to_intensities sas = Inr t"
    and k: "k < length sas" and frame: "sas ! k = (sa, inds)"
    and ok: "df_ok sa" and j: "j < nrows sa"
    and i: "i = sum_list (map (nrows \<circ> fst) (take k sas)) + j"
  shows "\<exists>c r ints.
           inds CH = Some c \<and> inds ROUND = Some r \<and> cols sa ''intensity'' = Some ints \<and>
           j < length ints \<and> i < n_features t \<and>
           c \<in> set (c_labels t) \<and> r \<in> set (r_labels t) \<and>
           cell t i c r = ints ! j \<and>
           (\<forall>c' r'. (c', r') \<noteq> (c, r) \<longrightarrow> cell t i c' r' = 0) \<and>
           length (writes t) = n_features t \<and> writes t ! i = (i, c, r)"
proof -
  from concatenate_stages [OF run] obtain chs rounds all_spots fc i1 where
    pc: "pd_concat (map fst sas) = Inr all_spots" and
    dd: "df_drop all_spots [''spot_id'', ''intensity''] = Inr fc" and
    af: "assign_frames sas
           (IntensityTable_zeros fc (sort (remdups rounds)) (sort (remdups chs)), 0) = Inr (t, i1)"
    by blast
  let ?t0 = "IntensityTable_zeros fc (sort (remdups rounds)) (sort (remdups chs))"
  have t0: "writes ?t0 = []" "c_labels ?t0 = sort (remdups chs)"
    "r_labels ?t0 = sort (remdups rounds)" "features ?t0 = fc"
    by (simp_all add: IntensityTable_zeros_def)
  have z0: "cell ?t0 a b c = 0" for a b c by (simp add: IntensityTable_zeros_def)
  note A = assign_frames_Inr [OF af, unfolded t0 z0 list.size add_0]
  from A have f: "features t = fc" by blast
  from A have cl: "c_labels t = sort (remdups chs)" "r_labels t = sort (remdups rounds)"
    by blast+
  from A have lw: "length (writes t) = sum_list (map (nrows \<circ> fst) sas)" by blast
  have n: "n_features t = sum_list (map (nrows \<circ> fst) sas)"
    by (rule concatenate_n_features [OF run])
  have kj: "k < length sas \<and> j < nrows (fst (sas ! k))" using k j frame by simp
  from A have "\<forall>k j. k < length sas \<and> j < nrows (fst (sas ! k)) \<longrightarrow>
            (\<exists>c r v.
               snd (sas ! k) CH = Some c \<and> snd (sas ! k) ROUND = Some r \<and>
               (iterrows (fst (sas ! k)) ! j) ''intensity'' = Some v \<and>
               c \<in> set (sort (remdups chs)) \<and> r \<in> set (sort (remdups rounds)) \<and>
               writes t ! (sum_list (map (nrows \<circ> fst) (take k sas)) + j)
                 = (sum_list (map (nrows \<circ> fst) (take k sas)) + j, c, r) \<and>
               (\<forall>c' r'. cell t (sum_list (map (nrows \<circ> fst) (take k sas)) + j) c' r' =
                  (if c' = c \<and> r' = r then v else 0)))"
    by blast
  with kj obtain c r v where
    g: "snd (sas ! k) CH = Some c" "snd (sas ! k) ROUND = Some r"
      "(iterrows (fst (sas ! k)) ! j) ''intensity'' = Some v"
      "c \<in> set (sort (remdups chs))" "r \<in> set (sort (remdups rounds))"
      "writes t ! (sum_list (map (nrows \<circ> fst) (take k sas)) + j)
         = (sum_list (map (nrows \<circ> fst) (take k sas)) + j, c, r)"
      "\<forall>c' r'. cell t (sum_list (map (nrows \<circ> fst) (take k sas)) + j) c' r' =
                  (if c' = c \<and> r' = r then v else 0)"
    by blast
  from g(3) obtain ints where ints: "cols sa ''intensity'' = Some ints" and v: "v = ints ! j"
    using j frame by (auto simp add: nth_iterrows)
  have jl: "j < length ints" using ok ints j by (simp add: df_ok_length)
  have il: "i < n_features t" unfolding n i by (rule rows_before_frame) (use kj in simp_all)
  have "cell t i c r = ints ! j" using g(7) v i by simp
  moreover have "\<forall>c' r'. (c', r') \<noteq> (c, r) \<longrightarrow> cell t i c' r' = 0" using g(7) i by simp
  moreover have "writes t ! i = (i, c, r)" using g(6) i by simp
  moreover have "length (writes t) = n_features t" using lw n by simp
  moreover have "inds CH = Some c" "inds ROUND = Some r" using g(1,2) frame by simp_all
  moreover have "c \<in> set (c_labels t)" "r \<in> set (r_labels t)" using g(4,5) cl by simp_all
  ultimately show ?thesis using ints jl il by blast
qed

theorem concatenate_cells_witness:
  "\<exists>t. concatenate_spot_attributes_to_intensities ex_frames = Inr t \<and>
     cell t 0 1 0 = 4 \<and> cell t 0 0 0 = 0 \<and> cell t 1 0 0 = 9 \<and> cell t 1 1 0 = 0 \<and>
     writes t = [(0, 1, 0), (1, 0, 0)]"
proof -
  from ex_frames_run obtain t where
    run: "concatenate_spot_attributes_to_intensities ex_frames = Inr t" by blast
  have k0: "0 < length ex_frames" "ex_frames ! 0 = (ex_found 4, [CH \<mapsto> 1, ROUND \<mapsto> 0])"
    and k1: "1 < length ex_frames" "ex_frames ! 1 = (ex_found 9, [CH \<mapsto> 0, ROUND \<mapsto> 0])"
    by (simp_all add: ex_frames_def)
  have j: "0 < nrows (ex_found v)" for v by (simp add: ex_found_def)
  have i0: "0 = sum_list (map (nrows \<circ> fst) (take 0 ex_frames)) + 0" by simp
  have i1: "1 = sum_list (map (nrows \<circ> fst) (take 1 ex_frames)) + 0"
    by (simp add: ex_frames_def ex_found_def)
  from concatenate_cells [OF run k0 ex_found_ok j i0]
  have a: "cell t 0 1 0 = 4 \<and> cell t 0 0 0 = 0 \<and> length (writes t) = n_features t \<and>
           writes t ! 0 = (0, 1, 0)"
    by (auto simp add: ex_found_def)
  from concatenate_cells [OF run k1 ex_found_ok j i1]
  have b: "cell t 1 0 0 = 9 \<and> cell t 1 1 0 = 0 \<and> 1 < n_features t \<and> writes t ! 1 = (1, 0, 0)"
    by (auto simp add: ex_found_def)
  have "n_features t = 2"
    using concatenate_n_features [OF run] by (simp add: ex_frames_def ex_found_def)
  with a b have "writes t = [(0, 1, 0), (1, 0, 0)]"
    by (auto simp add: list_eq_iff_nth_eq less_Suc_eq numeral_2_eq_2)
  with run a b show ?thesis by blast
qed

section \<open>Claims about the orchestrator\<close>

text \<open>
  C9. A run of \<open>detect_spots\<close> that returns has followed one of two strategies, chosen by
  whether a reference image is given. With a reference image, the spot-finding function
  ran once, on the array of the reference (squeezed after the max projection over
  the given axes when axes are given, its raw array otherwise), with the keyword
  arguments; the spots were measured by \<open>measure_spot_intensities\<close> on the data stack, so
  that the table carries the channel and round labels of the data stack and the frames
  retrieved are frames of the data stack. Without a reference image, the function was
  handed to the stack's grouped map over round and channel, and the frames it returned
  were merged by \<open>concatenate_spot_attributes_to_intensities\<close>. In both cases what is
  returned is the table after the coordinate transfer, which is the last call made.
\<close>

theorem detect_spots_strategies:
  assumes run: "detect_spots ops data_stack finder kwargs reference_image axes
                  measurement_function g n_processes = Inr (result, trace)"
    and kw: "kw = (case kwargs of None \<Rightarrow> Map.empty | Some k \<Rightarrow> k)"
  shows "(case reference_image of
            Some ref \<Rightarrow>
              (\<exists>spots m.
                 finder (case axes of
                           Some ax \<Rightarrow> squeezed_numpy ops (max_proj ops ref ax) ax
                         | None \<Rightarrow> xarray ops ref) kw = Inr spots \<and>
                 measure_spot_intensities ops data_stack spots measurement_function g = Inr m \<and>
                 result = transfer_physical_coords ops data_stack (table m) \<and>
                 c_labels (table m) = axis_labels ops data_stack CH \<and>
                 r_labels (table m) = axis_labels ops data_stack ROUND \<and>
                 n_features (table m) = nrows spots \<and>
                 frames_read m =
                   (if nrows spots = 0 then []
                    else List.product (axis_labels ops data_stack CH)
                           (axis_labels ops data_stack ROUND)) \<and>
                 trace = (case axes of Some ax \<Rightarrow> [Max_proj ax] | None \<Rightarrow> [])
                         @ [Spot_finding] @ map (\<lambda>(c, r). Get_slice c r) (frames_read m)
                         @ [Transfer_coords])
          | None \<Rightarrow>
              (\<exists>frames t.
                 transform ops data_stack (\<lambda>img. finder img kw) {ROUND, CH} n_processes
                   = Inr frames \<and>
                 concatenate_spot_attributes_to_intensities frames = Inr t \<and>
                 result = transfer_physical_coords ops data_stack t \<and>
                 trace = [Stack_transform, Transfer_coords])) \<and>
         count_list trace Spot_finding = (if reference_image = None then 0 else 1) \<and>
         count_list trace Stack_transform = (if reference_image = None then 1 else 0) \<and>
         count_list trace Transfer_coords = 1 \<and> last trace = Transfer_coords"
proof (cases reference_image)
  case None
  from run [unfolded None detect_spots_independent] obtain frames t where
    tr: "transform ops data_stack (\<lambda>img. finder img kw) {ROUND, CH} n_processes = Inr frames"
    and co: "concatenate_spot_attributes_to_intensities frames = Inr t"
    and res: "result = transfer_physical_coords ops data_stack t"
    and trace: "trace = [Stack_transform, Transfer_coords]"
    unfolding kw by (auto split: sum.splits)
  then show ?thesis using None by simp
next
  case (Some ref)
  let ?img = "case axes of
                Some ax \<Rightarrow> squeezed_numpy ops (max_proj ops ref ax) ax
              | None \<Rightarrow> xarray ops ref"
  let ?pre = "case axes of Some ax \<Rightarrow> [Max_proj ax] | None \<Rightarrow> []"
  from run [unfolded Some detect_spots_reference] obtain spots m where
    fi: "finder ?img kw = Inr spots"
    and ms: "measure_spot_intensities ops data_stack spots measurement_function g = Inr m"
    and res: "result = transfer_physical_coords ops data_stack (table m)"
    and trace: "trace = ?pre @ [Spot_finding] @ map (\<lambda>(c, r). Get_slice c r) (frames_read m)
                  @ [Transfer_coords]"
    unfolding kw by (auto split: sum.splits)
  note L = measure_spot_intensities_labels [OF ms]
  have pre: "count_list ?pre Spot_finding = 0" "count_list ?pre Stack_transform = 0"
    "count_list ?pre Transfer_coords = 0"
    by (simp_all split: option.splits)
  have counts: "count_list trace Spot_finding = 1" "count_list trace Stack_transform = 0"
    "count_list trace Transfer_coords = 1" "last trace = Transfer_coords"
    unfolding trace by (simp_all add: pre count_get_slice)
  have "\<exists>spots m.
          finder ?img kw = Inr spots \<and>
          measure_spot_intensities ops data_stack spots measurement_function g = Inr m \<and>
          result = transfer_physical_coords ops data_stack (table m) \<and>
          c_labels (table m) = axis_labels ops data_stack CH \<and>
          r_labels (table m) = axis_labels ops data_stack ROUND \<and>
          n_features (table m) = nrows spots \<and>
          frames_read m =
            (if nrows spots = 0 then []
             else List.product (axis_labels ops data_stack CH)
                    (axis_labels ops data_stack ROUND)) \<and>
          trace = ?pre @ [Spot_finding] @ map (\<lambda>(c, r). Get_slice c r) (frames_read m)
                  @ [Transfer_coords]"
    using fi ms res L trace by blast
  then show ?thesis using Some counts by simp
qed

theorem detect_spots_strategies_witness:
  "(\<exists>t. detect_spots ex_ops () ex_finder_ref None (Some ()) None corner_value False None
           = Inr (t, [Spot_finding, Get_slice 0 0, Get_slice 1 0, Transfer_coords]) \<and>
         cols (features t) ''xc'' = Some [Some 0]) \<and>
   (\<exists>t. concatenate_spot_attributes_to_intensities ex_frames = Inr t \<and>
         detect_spots ex_ops () ex_finder None None None corner_value False None
           = Inr (transfer_physical_coords ex_ops () t, [Stack_transform, Transfer_coords]))"
proof -
  have kw: "(Map.empty :: string \<rightharpoonup> unit) = (case None of None \<Rightarrow> Map.empty | Some k \<Rightarrow> k)"
    by simp
  from ex_detect_reference obtain t tr where
    r1: "detect_spots ex_ops () ex_finder_ref None (Some ()) None corner_value False None
           = Inr (t, tr)" by blast
  from detect_spots_strategies [OF r1 kw]
  have "tr = [Spot_finding, Get_slice 0 0, Get_slice 1 0, Transfer_coords] \<and>
        cols (features t) ''xc'' = Some [Some 0]"
    by (auto simp add: ex_finder_ref_def ex_ops_labels ex_spot_nrows ex_ops_transfer
        n_features_def setcol_def)
  with r1 have a: "\<exists>t. detect_spots ex_ops () ex_finder_ref None (Some ()) None corner_value
                         False None
           = Inr (t, [Spot_finding, Get_slice 0 0, Get_slice 1 0, Transfer_coords]) \<and>
         cols (features t) ''xc'' = Some [Some 0]"
    by blast
  from ex_detect_independent obtain t2 tr2 where
    r2: "detect_spots ex_ops () ex_finder None None None corner_value False None
           = Inr (t2, tr2)" by blast
  from detect_spots_strategies [OF r2 kw]
  have "\<exists>t. concatenate_spot_attributes_to_intensities ex_frames = Inr t \<and>
            t2 = transfer_physical_coords ex_ops () t \<and>
            tr2 = [Stack_transform, Transfer_coords]"
    by (auto simp add: ex_transform)
  with r2 have b: "\<exists>t. concatenate_spot_attributes_to_intensities ex_frames = Inr t \<and>
         detect_spots ex_ops () ex_finder None None None corner_value False None
           = Inr (transfer_physical_coords ex_ops () t, [Stack_transform, Transfer_coords])"
    by blast
  from a b show ?thesis by blast
qed

section \<open>Claims about the inputs of measure_spot_intensity\<close>

text \<open>
  C10 (as stated, refuted). A call with a 2-D image does not always fail: the table
  without rows, once a call on a 3-D volume has left the six bound columns on it, goes
  through a second call on a 2-D image without an exception. No row is measured, so
  the indexing by three slices never runs, and the selection of line 61 finds the
  columns \<open>x_min\<close> and \<open>x_max\<close> of the earlier call.
\<close>

theorem two_axes_no_rows_counterexample:
  "measure_spot_intensity ex_image ex_no_spots corner_value False
     = Inr ([], ex_no_spots_boxed) \<and>
   shape ex_image_2d = [3, 3] \<and>
   measure_spot_intensity ex_image_2d ex_no_spots_boxed corner_value False
     = Inr ([], ex_no_spots_boxed)"
  by (simp add: model_defs ex_image_def ex_image_2d_def ex_no_spots_def ex_no_spots_boxed_def
      fun_eq_iff)

text \<open>
  C10 (amended). \<open>measure_spot_intensity\<close> zips the names z, y, x against the shape of the
  image and indexes the image by three slices, without a check of its own. A call
  with an image of fewer than three axes raises when the (well-formed) table has at
  least one row, and also when the table has no \<open>x_min\<close> or no \<open>x_max\<close> column; a call
  with a table that has no z column raises KeyError when the image has at least one
  axis. A well-formed table without rows that has the columns z, y, radius, \<open>x_min\<close>
  and \<open>x_max\<close> goes through a call with a 2-D image. After every call that returns, the
  six bound columns are on the caller's table, the number of rows and all other columns
  being as before.
\<close>

theorem measure_spot_intensity_requirements:
  "(length (shape img) < 3 \<and>
      (df_ok spots \<and> 0 < nrows spots \<or> cols spots ''x_min'' = None \<or> cols spots ''x_max'' = None)
      \<longrightarrow> (\<exists>e. measure_spot_intensity img spots measurement_function g = Inl e)) \<and>
   (cols spots ''z'' = None \<and> shape img \<noteq> []
      \<longrightarrow> measure_spot_intensity img spots measurement_function g = Inl KeyError) \<and>
   (length (shape img) = 2 \<and> nrows spots = 0 \<and> df_ok spots \<and>
      cols spots ''z'' \<noteq> None \<and> cols spots ''y'' \<noteq> None \<and> cols spots SPOT_RADIUS \<noteq> None \<and>
      cols spots ''x_min'' \<noteq> None \<and> cols spots ''x_max'' \<noteq> None
      \<longrightarrow> (\<exists>spots'. measure_spot_intensity img spots measurement_function g
                       = Inr ([], spots'))) \<and>
   (\<forall>res spots'. measure_spot_intensity img spots measurement_function g = Inr (res, spots')
      \<longrightarrow> list_all (\<lambda>name. cols spots' name \<noteq> None)
             [''z_min'', ''z_max'', ''y_min'', ''y_max'', ''x_min'', ''x_max''] \<and>
          nrows spots' = nrows spots \<and>
          (\<forall>w. w \<notin> set [''z_min'', ''z_max'', ''y_min'', ''y_max'', ''x_min'', ''x_max'']
             \<longrightarrow> cols spots' w = cols spots w))"
proof (intro conjI impI allI)
  assume a: "length (shape img) < 3 \<and>
      (df_ok spots \<and> 0 < nrows spots \<or> cols spots ''x_min'' = None \<or> cols spots ''x_max'' = None)"
  then have low: "length (shape img) < 3" by simp
  show "\<exists>e. measure_spot_intensity img spots measurement_function g = Inl e"
  proof (cases "df_ok spots \<and> 0 < nrows spots")
    case True
    then have "df_ok spots" "0 < nrows spots" by simp_all
    then show ?thesis by (rule measure_low_dim_rows [OF low])
  next
    case False
    with a have "cols spots ''x_min'' = None \<or> cols spots ''x_max'' = None" by auto
    then show ?thesis by (rule measure_low_dim_fresh [OF low])
  qed
next
  assume "cols spots ''z'' = None \<and> shape img \<noteq> []"
  then show "measure_spot_intensity img spots measurement_function g = Inl KeyError"
    using measure_no_z by blast
next
  assume "length (shape img) = 2 \<and> nrows spots = 0 \<and> df_ok spots \<and>
      cols spots ''z'' \<noteq> None \<and> cols spots ''y'' \<noteq> None \<and> cols spots SPOT_RADIUS \<noteq> None \<and>
      cols spots ''x_min'' \<noteq> None \<and> cols spots ''x_max'' \<noteq> None"
  then show "\<exists>spots'. measure_spot_intensity img spots measurement_function g = Inr ([], spots')"
    by (intro measure_two_axes_no_rows) simp_all
next
  fix res spots'
  assume run: "measure_spot_intensity img spots measurement_function g = Inr (res, spots')"
  show "list_all (\<lambda>name. cols spots' name \<noteq> None)
             [''z_min'', ''z_max'', ''y_min'', ''y_max'', ''x_min'', ''x_max'']"
    by (rule measure_leaves_columns(1) [OF run])
  show "nrows spots' = nrows spots" by (rule measure_leaves_columns(2) [OF run])
  fix w assume "w \<notin> set [''z_min'', ''z_max'', ''y_min'', ''y_max'', ''x_min'', ''x_max'']"
  then show "cols spots' w = cols spots w" by (rule measure_leaves_columns(3) [OF run])
qed

theorem measure_spot_intensity_requirements_witness:
  "measure_spot_intensity ex_image_2d (ex_spot 1 1 1 (3/2)) corner_value False = Inl KeyError \<and>
   measure_spot_intensity ex_image ex_no_z corner_value False = Inl KeyError \<and>
   measure_spot_intensity ex_image (ex_spot 1 1 1 (3/2)) corner_value False
     = Inr ([9], ex_boxed) \<and>
   cols ex_boxed ''x_max'' \<noteq> None \<and> cols ex_boxed ''radius'' = Some [3/2] \<and>
   (\<exists>spots'. measure_spot_intensity ex_image_2d ex_no_spots_boxed corner_value False
               = Inr ([], spots'))"
proof -
  have "length (shape ex_image_2d) < 3 \<and>
      (df_ok (ex_spot 1 1 1 (3/2)) \<and> 0 < nrows (ex_spot 1 1 1 (3/2)) \<or>
       cols (ex_spot 1 1 1 (3/2)) ''x_min'' = None \<or> cols (ex_spot 1 1 1 (3/2)) ''x_max'' = None)"
    by (simp add: ex_image_2d_def ex_spot_ok ex_spot_nrows)
  with measure_spot_intensity_requirements
    [of ex_image_2d "ex_spot 1 1 1 (3/2)" corner_value False]
  have a: "measure_spot_intensity ex_image_2d (ex_spot 1 1 1 (3/2)) corner_value False
             = Inl KeyError"
    by (simp add: ex_run_2d)
  have "cols ex_no_z ''z'' = None \<and> shape ex_image \<noteq> []"
    by (simp add: ex_no_z_def ex_image_def)
  with measure_spot_intensity_requirements [of ex_image ex_no_z corner_value False]
  have b: "measure_spot_intensity ex_image ex_no_z corner_value False = Inl KeyError"
    by blast
  from measure_spot_intensity_requirements
    [of ex_image "ex_spot 1 1 1 (3/2)" corner_value False] ex_run
  have c: "cols ex_boxed ''x_max'' \<noteq> None \<and> cols ex_boxed ''radius'' = cols (ex_spot 1 1 1 (3/2)) ''radius''"
    by simp
  from measure_spot_intensity_requirements
    [of ex_image_2d ex_no_spots_boxed corner_value False] ex_run_2d_no_rows
  have d: "\<exists>spots'. measure_spot_intensity ex_image_2d ex_no_spots_boxed corner_value False
                      = Inr ([], spots')"
    by blast
  from a b c d ex_run show ?thesis by (simp add: ex_spot_def)
qed

end
